theory Spec2Isabelle
  imports Main "HOL-Library.Multiset"
begin

section \<open>Strings\<close>

text \<open>
  A string is a list of characters with the codes 0 to 255, read as the code units U+0000
  to U+00FF (Basic Latin and the Latin-1 Supplement); strings with a code unit above U+00FF
  are outside the model. On these code units \<open>String.prototype.toLowerCase\<close> works
  character by character: the capital letters are A..Z (65 to 90) and those of the Latin-1
  Supplement (192 to 214 and 216 to 222); the small letter of each is 32 places up, which
  is setting bit 5 of the code; every other character is left alone.
\<close>

definition isCapital :: "nat \<Rightarrow> bool" where
  "isCapital n \<longleftrightarrow> (65 \<le> n \<and> n \<le> 90) \<or> (192 \<le> n \<and> n \<le> 214) \<or> (216 \<le> n \<and> n \<le> 222)"

definition toLowerCaseChar :: "char \<Rightarrow> char" where
  "toLowerCaseChar c =
     (if isCapital (of_char c)
      then Char (digit0 c) (digit1 c) (digit2 c) (digit3 c) (digit4 c) True (digit6 c) (digit7 c)
      else c)"

definition toLowerCase :: "string \<Rightarrow> string" where
  "toLowerCase s = map toLowerCaseChar s"

text \<open>\<open>s.split(sep)\<close> for a one-character separator: never returns the empty list.\<close>

fun splitOn :: "char \<Rightarrow> string \<Rightarrow> string list" where
  "splitOn sep [] = [[]]"
| "splitOn sep (c # cs) =
     (if c = sep then [] # splitOn sep cs
      else (case splitOn sep cs of
              [] \<Rightarrow> [[c]]
            | p # ps \<Rightarrow> (c # p) # ps))"

text \<open>\<open>parts.join(sep)\<close>.\<close>

fun joinWith :: "char \<Rightarrow> string list \<Rightarrow> string" where
  "joinWith sep [] = []"
| "joinWith sep [p] = p"
| "joinWith sep (p # q # ps) = p @ sep # joinWith sep (q # ps)"

text \<open>Decimal rendering of a number inside a template string.\<close>

definition digitChar :: "nat \<Rightarrow> char" where
  "digitChar d = ''0123456789'' ! d"

fun stringOfNat :: "nat \<Rightarrow> string" where
  "stringOfNat n =
     (if n < 10 then [digitChar n] else stringOfNat (n div 10) @ [digitChar (n mod 10)])"

declare stringOfNat.simps [simp del]

section \<open>Source positions, diagnostics\<close>

record position =
  line :: nat
  character :: nat

record srange =
  range_start :: position
  range_end :: position

text \<open>\<open>Range.create(startLine, startCharacter, endLine, endCharacter)\<close>.\<close>

definition Range_create :: "nat \<Rightarrow> nat \<Rightarrow> nat \<Rightarrow> nat \<Rightarrow> srange" where
  "Range_create sl sc el ec =
     \<lparr>range_start = \<lparr>line = sl, character = sc\<rparr>, range_end = \<lparr>line = el, character = ec\<rparr>\<rparr>"

text \<open>
  The argument that \<open>mismatchArgumentCount\<close> receives for the expected count: the number
  itself, or a text built from two numbers.
\<close>

datatype numberOrString = Num nat | Str string

text \<open>
  The factory functions of \<open>DiagnosticMessages\<close> are kept symbolic: one constructor per
  factory, holding the arguments it was called with.
\<close>

datatype diagnosticInfo =
    overridesAncestorFunction string string string string
  | duplicateFunctionImplementation string string
  | mismatchArgumentCount numberOrString nat
  | callToUnknownFunction string string
  | localVarFunctionShadowsParentFunction string
  | localVarShadowedByScopedFunction
  | scopeFunctionShadowedByBuiltInFunction
  | unnecessaryScriptImportInChildFromParent "string option"
  | scriptSrcCannotBeEmpty
  | referencedFileDoesNotExist
  | scriptImportCaseMismatch string
  | otherDiagnostic nat

datatype severity = Hint | Information | Warning | Error

text \<open>
  Modelled from the spec: the severity that \<open>DiagnosticMessages\<close> gives the diagnostic
  kinds named there (duplicate implementation: error; overrides ancestor: informational;
  duplicate ancestor script import: warning). The catalogue itself is not part of the
  sources at hand, so every other kind is left without a severity.
\<close>

fun severityOf :: "diagnosticInfo \<Rightarrow> severity option" where
  "severityOf (duplicateFunctionImplementation _ _) = Some Error"
| "severityOf (overridesAncestorFunction _ _ _ _) = Some Information"
| "severityOf (unnecessaryScriptImportInChildFromParent _) = Some Warning"
| "severityOf _ = None"

text \<open>A diagnostic: the catalogue entry, the range and the file (by absolute path).\<close>

record diagnostic =
  d_info :: diagnosticInfo
  d_range :: srange
  d_file :: string

section \<open>Files and what the parser leaves in them\<close>

record functionParameter =
  p_name :: string
  isOptional :: bool

text \<open>
  A callable. \<open>getName_bs\<close> is the result of \<open>getName(ParseMode.BrighterScript)\<close>;
  \<open>c_pathAbsolute\<close> and \<open>c_pkgPath\<close> are \<open>callable.file.pathAbsolute\<close> and
  \<open>callable.file.pkgPath\<close>.
\<close>

record callable =
  c_name :: string
  getName_bs :: string
  params :: "functionParameter list"
  c_nameRange :: srange
  c_pathAbsolute :: string
  c_pkgPath :: string

record functionCall =
  fc_name :: string
  args :: "string list"
  fc_nameRange :: srange

record variableDeclaration =
  v_name :: string
  isFunctionType :: bool
  v_nameRange :: srange

record functionScope =
  variableDeclarations :: "variableDeclaration list"

text \<open>
  Modelled from the spec: \<open>FunctionScope.getVariableByName\<close>, which is not part of the
  sources at hand: the first declared variable whose lower-cased name is the lower-cased
  argument.
\<close>

definition getVariableByName :: "functionScope \<Rightarrow> string \<Rightarrow> variableDeclaration option" where
  "getVariableByName fs nm =
     find (\<lambda>v. toLowerCase (v_name v) = toLowerCase nm) (variableDeclarations fs)"

text \<open>
  A statement of a namespace body, as far as \<open>buildNamespaceLookup\<close> tells statements
  apart: a class statement or a function statement (with \<open>statement.name.text\<close>), or
  anything else.
\<close>

datatype statement = ClassStatement string | FunctionStatement string | OtherStatement nat

text \<open>\<open>ns_name\<close> is \<open>nameExpression.getName(ParseMode.BrighterScript)\<close>.\<close>

record namespaceStatement =
  ns_name :: string
  ns_body :: "statement list"

text \<open>
  One script import of a component descriptor. \<open>sourceFile\<close> is the address of the
  descriptor that declares it.
\<close>

record fileReference =
  fr_pkgPath :: string
  fr_text :: string
  filePathRange :: srange
  sourceFile :: nat

text \<open>
  A file as a scope sees it. \<open>xmlRef\<close> is \<open>Some a\<close> exactly for an \<open>XmlFile\<close>, and
  \<open>a\<close> is then the address of its mutable part (the resolved parent) in the program.
  \<open>getFunctionScopeAtPosition\<close> belongs to the file classes, which are not part of the
  sources at hand, and is carried as a field (\<open>None\<close> for \<open>undefined\<close>).
  The program gives every file the absolute path of the file as its \<open>pathAbsolute\<close>:
  the root and the path below the root, which is what the record holds (paths with a drive
  letter are outside the model).
\<close>

record bscFile =
  pathBelowRoot :: string
  pkgPath :: string
  callables :: "callable list"
  functionCalls :: "functionCall list"
  functionScopes :: "functionScope list"
  getFunctionScopeAtPosition :: "position \<Rightarrow> functionScope option"
  namespaceStatements :: "namespaceStatement list"
  classStatementNames :: "string list"
  fileDiagnostics :: "diagnostic list"
  xmlRef :: "nat option"

definition pathAbsolute :: "bscFile \<Rightarrow> string" where
  "pathAbsolute f = CHR ''/'' # pathBelowRoot f"

section \<open>Objects used as dictionaries\<close>

text \<open>
  An object used as a dictionary (\<open>{}\<close> with string keys) is the association list of its
  own properties in the order of their creation, which is the order \<open>for (key in obj)\<close>
  visits them in (the keys here are names and paths, none of them an array index). Writing
  an existing key keeps its place; deleting a key and writing it again moves it to the end.
\<close>

type_synonym 'v dict = "(string \<times> 'v) list"

text \<open>The own property of a key, if there is one.\<close>

definition dict_get :: "'v dict \<Rightarrow> string \<Rightarrow> 'v option" where
  "dict_get d k = map_of d k"

fun dict_set :: "'v dict \<Rightarrow> string \<Rightarrow> 'v \<Rightarrow> 'v dict" where
  "dict_set [] k v = [(k, v)]"
| "dict_set ((k', v') # d) k v = (if k' = k then (k, v) # d else (k', v') # dict_set d k v)"

definition dict_delete :: "'v dict \<Rightarrow> string \<Rightarrow> 'v dict" where
  "dict_delete d k = filter (\<lambda>kv. fst kv \<noteq> k) d"

definition dict_keys :: "'v dict \<Rightarrow> string list" where
  "dict_keys d = map fst d"

text \<open>
  Every object created by \<open>{}\<close> inherits the properties of \<open>Object.prototype\<close>. So
  reading \<open>obj[k]\<close> gives the own property of \<open>k\<close> when there is one; otherwise, for
  the twelve names below, a value that is not \<open>undefined\<close> and that nobody has stored
  (a function of \<open>Object.prototype\<close>, and for \<open>__proto__\<close> the object
  \<open>Object.prototype\<close> itself); otherwise \<open>undefined\<close>. Every such inherited value is
  truthy, is not \<open>null\<close>, and has none of the properties that the code at hand reads
  from the values it stores (\<open>statements\<close>, \<open>fullName\<close>, \<open>namespaces\<close>,
  \<open>sourceFile\<close>, an element \<open>0\<close>).
\<close>

definition objectPrototypeKeys :: "string list" where
  "objectPrototypeKeys =
     [''constructor'', ''__defineGetter__'', ''__defineSetter__'', ''hasOwnProperty'',
      ''__lookupGetter__'', ''__lookupSetter__'', ''isPrototypeOf'', ''propertyIsEnumerable'',
      ''toString'', ''valueOf'', ''__proto__'', ''toLocaleString'']"

datatype 'v property = Undefined | Inherited | Own 'v

definition obj_get :: "'v dict \<Rightarrow> string \<Rightarrow> 'v property" where
  "obj_get d k =
     (case dict_get d k of
        Some v \<Rightarrow> Own v
      | None \<Rightarrow> if k \<in> set objectPrototypeKeys then Inherited else Undefined)"

text \<open>
  Truthiness of what such a read gives: the values that the dictionaries hold are objects
  and arrays, which are truthy, and so is every inherited value.
\<close>

fun truthyProperty :: "'v property \<Rightarrow> bool" where
  "truthyProperty Undefined = False"
| "truthyProperty Inherited = True"
| "truthyProperty (Own v) = True"

text \<open>
  An assignment \<open>obj[k] = v\<close> creates or overwrites the own property \<open>k\<close>, with one
  exception: for \<open>k\<close> being \<open>__proto__\<close> and \<open>v\<close> an object it creates no property and
  makes \<open>v\<close> the prototype of \<open>obj\<close>, and \<open>obj.__proto__\<close> then reads \<open>v\<close>. The
  tables that the code at hand only writes (\<open>classStatements\<close>, \<open>functionStatements\<close>,
  \<open>namespaces\<close>, the class lookup) keep such a value under the key \<open>__proto__\<close>,
  where that read finds it. The tables that the code also reads are the files of a scope,
  whose keys are absolute paths, and the two lookups built further down, for which the
  assignment is written out where it happens.
\<close>

section \<open>Scopes and the program\<close>

text \<open>
  A \<open>NamespaceContainer\<close>. A container object lives in exactly one place, under its key
  in the namespace lookup, so the reference that \<open>namespaces\<close> holds to a child container
  is the child's key in the lookup.
\<close>

record namespaceContainer =
  fullName :: string
  lastPartName :: string
  statements :: "statement list"
  classStatements :: "statement dict"
  functionStatements :: "statement dict"
  namespaces :: "string dict"

text \<open>
  What the namespace lookup holds under a key while it is built: a container, or a value
  inherited from \<open>Object.prototype\<close> that the code has read and stored back.
\<close>

datatype lookupValue = Container namespaceContainer | InheritedValue

text \<open>
  The part of an \<open>XmlFile\<close> that the descriptor scope reads. \<open>None\<close> stands for
  \<open>undefined\<close>. \<open>x_parent\<close> is the resolved parent descriptor (an address).
\<close>

record xmlFile =
  x_pathAbsolute :: string
  x_pkgPath :: string
  componentName :: "string option"
  parentName :: "string option"
  scriptTagImports :: "fileReference list"
  x_parent :: "nat option"

text \<open>Truthiness of a value that is a string or \<open>undefined\<close>.\<close>

fun truthy :: "string option \<Rightarrow> bool" where
  "truthy None = False"
| "truthy (Some s) = (s \<noteq> [])"

text \<open>
  The one kind of callback that the sources register on a scope's \<open>'invalidated'\<close> event:
  the closure of \<open>attachParentScope\<close>, which sets \<open>isValidated = false\<close> on the scope
  that registered it.
\<close>

datatype listener = InvalidateScope nat

text \<open>
  A \<open>Scope\<close> object. Scopes refer to each other (parent link, listeners), so they live in
  a store and are named by their address. \<open>xmlFile\<close> is \<open>Some a\<close> for an \<open>XmlScope\<close>
  whose descriptor is at address \<open>a\<close>, and \<open>None\<close> for a plain \<open>Scope\<close>.
  \<open>emitted\<close> records the events the scope has emitted, oldest first.
\<close>

record scope =
  name :: string
  isValidated :: bool
  namespaceLookup_cache :: "lookupValue dict option"
  classLookup_cache :: "string dict option"
  diagnostics :: "diagnostic list"
  files :: "bscFile dict"
  parentScope :: "nat option"
  parentScopeHandles :: "(nat \<times> nat) list"
  listeners :: "(nat \<times> listener) list"
  emitted :: "string list"
  xmlFile :: "nat option"

text \<open>
  The program: the store of scopes, the store of descriptors, the scope registry (scope
  name to address), the platform scope, and a counter that numbers the callbacks.
\<close>

record program =
  scopes :: "nat \<Rightarrow> scope"
  xmlFiles :: "nat \<Rightarrow> xmlFile"
  scopeRegistry :: "nat dict"
  platformScope :: nat
  nextListener :: nat

text \<open>
  What the scope code calls and the sources at hand do not hold: the collation behind
  \<open>localeCompare\<close>, the table \<open>platformCallableMap\<close> (as the truthiness of
  \<open>platformCallableMap[name]\<close>), the class validator (as the diagnostics it leaves for a
  scope), \<open>util.diagnosticIsSuppressed\<close> and \<open>util.standardizePath\<close>.
\<close>

record externals =
  localeCompare :: "string \<Rightarrow> string \<Rightarrow> int"
  platformCallableMap :: "string \<Rightarrow> bool"
  classValidator :: "program \<Rightarrow> nat \<Rightarrow> diagnostic list"
  diagnosticIsSuppressed :: "diagnostic \<Rightarrow> bool"
  standardizePath :: "string \<Rightarrow> string"

definition updScope :: "nat \<Rightarrow> (scope \<Rightarrow> scope) \<Rightarrow> program \<Rightarrow> program" where
  "updScope r f P = P\<lparr>scopes := (scopes P)(r := f (scopes P r))\<rparr>"

text \<open>The setter of \<open>isValidated\<close>: stores the value and deletes both cached lookups.\<close>

definition set_isValidated :: "bool \<Rightarrow> scope \<Rightarrow> scope" where
  "set_isValidated v s =
     s\<lparr>isValidated := v, namespaceLookup_cache := None, classLookup_cache := None\<rparr>"

text \<open>
  The state of a \<open>Scope\<close> when its constructor returns: the field initialisers have run,
  then \<open>this.isValidated = false\<close>.
\<close>

definition newScope :: "string \<Rightarrow> scope" where
  "newScope nm =
     set_isValidated False
       \<lparr>name = nm, isValidated = False, namespaceLookup_cache = Some [],
        classLookup_cache = Some [], diagnostics = [], files = [], parentScope = None,
        parentScopeHandles = [], listeners = [], emitted = [], xmlFile = None\<rparr>"

text \<open>\<open>on('invalidated', callback)\<close>: returns the program and the disconnect handle.\<close>

definition on_invalidated :: "nat \<Rightarrow> listener \<Rightarrow> program \<Rightarrow> program \<times> (nat \<times> nat)" where
  "on_invalidated r cb P =
     (let i = nextListener P in
      ((updScope r (\<lambda>s. s\<lparr>listeners := listeners s @ [(i, cb)]\<rparr>) P)\<lparr>nextListener := Suc i\<rparr>,
       (r, i)))"

text \<open>Calling a disconnect handle removes that one callback.\<close>

definition disconnect :: "nat \<times> nat \<Rightarrow> program \<Rightarrow> program" where
  "disconnect h P =
     updScope (fst h) (\<lambda>s. s\<lparr>listeners := filter (\<lambda>l. fst l \<noteq> snd h) (listeners s)\<rparr>) P"

fun runListener :: "listener \<Rightarrow> program \<Rightarrow> program" where
  "runListener (InvalidateScope c) P = updScope c (set_isValidated False) P"

text \<open>\<open>emit('invalidated')\<close>: the callbacks run at once, in the order of registration.\<close>

definition emit :: "nat \<Rightarrow> string \<Rightarrow> program \<Rightarrow> program" where
  "emit r ev P =
     fold (\<lambda>l. runListener (snd l)) (listeners (scopes P r))
       (updScope r (\<lambda>s. s\<lparr>emitted := emitted s @ [ev]\<rparr>) P)"

definition attachParentScope :: "nat \<Rightarrow> nat \<Rightarrow> program \<Rightarrow> program" where
  "attachParentScope r parent P =
     (let P1 = updScope r (\<lambda>s. s\<lparr>parentScope := Some parent\<rparr>) P;
          (P2, h) = on_invalidated parent (InvalidateScope r) P1;
          P3 = updScope r (\<lambda>s. s\<lparr>parentScopeHandles := [h]\<rparr>) P2
      in if \<not> isValidated (scopes P3 parent) then updScope r (set_isValidated False) P3 else P3)"

definition detachParent :: "nat \<Rightarrow> program \<Rightarrow> program" where
  "detachParent r P =
     (let P1 = fold disconnect (parentScopeHandles (scopes P r)) P
      in if platformScope P1 \<noteq> r
         then updScope r (\<lambda>s. s\<lparr>parentScope := Some (platformScope P1)\<rparr>) P1
         else P1)"

text \<open>
  \<open>getFile\<close> reads \<open>this.files\<close> at whatever \<open>standardizePath\<close> returns, so it may
  find an inherited value.
\<close>

definition getFile :: "externals \<Rightarrow> scope \<Rightarrow> string \<Rightarrow> bscFile property" where
  "getFile X s filePath = obj_get (files s) (standardizePath X filePath)"

definition hasFile :: "scope \<Rightarrow> bscFile \<Rightarrow> bool" where
  "hasFile s f = truthyProperty (obj_get (files s) (pathAbsolute f))"

definition removeFile :: "externals \<Rightarrow> nat \<Rightarrow> bscFile \<Rightarrow> program \<Rightarrow> program" where
  "removeFile X r f P =
     (let P1 = updScope r (set_isValidated False) P
      in if \<not> truthyProperty (getFile X (scopes P1 r) (pathAbsolute f))
         then P1
         else emit r ''invalidated''
                (updScope r (\<lambda>s. s\<lparr>files := dict_delete (files s) (pathAbsolute f)\<rparr>) P1))"

text \<open>
  The key that \<open>addOrReplaceFile\<close> writes is an absolute path, so the assignment creates
  or overwrites an own property.
\<close>

definition addOrReplaceFile :: "externals \<Rightarrow> nat \<Rightarrow> bscFile \<Rightarrow> program \<Rightarrow> program" where
  "addOrReplaceFile X r f P =
     (let P1 = updScope r (set_isValidated False) P;
          P2 = (if truthyProperty (obj_get (files (scopes P1 r)) (pathAbsolute f))
                then removeFile X r f P1 else P1)
      in updScope r (\<lambda>s. s\<lparr>files := dict_set (files s) (pathAbsolute f) f\<rparr>) P2)"

text \<open>
  \<open>getDiagnostics\<close>: the scope's own list, then the list of every file, without the
  suppressed ones. It returns the program as it found it.
\<close>

definition getDiagnostics :: "externals \<Rightarrow> nat \<Rightarrow> program \<Rightarrow> diagnostic list \<times> program" where
  "getDiagnostics X r P =
     (let diagnosticLists = diagnostics (scopes P r) # map (\<lambda>kv. fileDiagnostics (snd kv)) (files (scopes P r));
          allDiagnostics = concat diagnosticLists
      in (filter (\<lambda>x. \<not> diagnosticIsSuppressed X x) allDiagnostics, P))"

section \<open>Callables of a scope\<close>

record callableContainer =
  cc_callable :: callable
  cc_scope :: nat

definition getOwnCallables :: "program \<Rightarrow> nat \<Rightarrow> callableContainer list" where
  "getOwnCallables P r =
     concat (map (\<lambda>kv. map (\<lambda>c. \<lparr>cc_callable = c, cc_scope = r\<rparr>) (callables (snd kv)))
               (files (scopes P r)))"

text \<open>
  \<open>getAllCallables\<close> follows the parent links, which the program may have tied into a
  cycle; the first argument bounds the depth of the recursion, and \<open>None\<close> says that the
  bound was too small (for a cycle, every bound is).
\<close>

fun getAllCallables :: "nat \<Rightarrow> program \<Rightarrow> nat \<Rightarrow> callableContainer list option" where
  "getAllCallables 0 P r = None"
| "getAllCallables (Suc n) P r =
     (case parentScope (scopes P r) of
        None \<Rightarrow> Some (getOwnCallables P r)
      | Some p \<Rightarrow>
          (case getAllCallables n P p of
             None \<Rightarrow> None
           | Some rest \<Rightarrow> Some (getOwnCallables P r @ rest)))"

text \<open>The comparator that \<open>validate\<close> sorts the callables with: path, then name.\<close>

definition compareCallables :: "externals \<Rightarrow> callableContainer \<Rightarrow> callableContainer \<Rightarrow> int" where
  "compareCallables X a b =
     (let byPath = localeCompare X (c_pathAbsolute (cc_callable a)) (c_pathAbsolute (cc_callable b))
      in if byPath \<noteq> 0 then byPath
         else localeCompare X (c_name (cc_callable a)) (c_name (cc_callable b)))"

text \<open>\<open>Array.prototype.sort\<close> with a comparator: a stable sort.\<close>

fun insertSorted :: "('a \<Rightarrow> 'a \<Rightarrow> int) \<Rightarrow> 'a \<Rightarrow> 'a list \<Rightarrow> 'a list" where
  "insertSorted cmp x [] = [x]"
| "insertSorted cmp x (y # ys) =
     (if cmp x y \<le> 0 then x # y # ys else y # insertSorted cmp x ys)"

definition sortWith :: "('a \<Rightarrow> 'a \<Rightarrow> int) \<Rightarrow> 'a list \<Rightarrow> 'a list" where
  "sortWith cmp xs = foldr (insertSorted cmp) xs []"

text \<open>
  Modelled from the spec: \<open>util.getCallableContainersByLowerName\<close>, which is not part of
  the sources at hand: the containers, in the order given, bucketed by lower-cased name
  (the name the scope itself looks callables up by, \<open>getName(ParseMode.BrighterScript)\<close>).
\<close>

definition getCallableContainersByLowerName ::
  "callableContainer list \<Rightarrow> callableContainer list dict" where
  "getCallableContainersByLowerName ccs =
     foldl (\<lambda>result cc.
              let lowerName = toLowerCase (getName_bs (cc_callable cc))
              in dict_set result lowerName
                   ((case dict_get result lowerName of None \<Rightarrow> [] | Some l \<Rightarrow> l) @ [cc]))
       [] ccs"

definition pushDiagnostics :: "nat \<Rightarrow> diagnostic list \<Rightarrow> program \<Rightarrow> program" where
  "pushDiagnostics r ds P = updScope r (\<lambda>s. s\<lparr>diagnostics := diagnostics s @ ds\<rparr>) P"

section \<open>Duplicate and overriding function declarations\<close>

definition ownCallables :: "program \<Rightarrow> nat \<Rightarrow> callableContainer list \<Rightarrow> callableContainer list" where
  "ownCallables P r containers =
     filter (\<lambda>c. cc_scope c \<noteq> platformScope P \<and> cc_scope c = r) containers"

definition ancestorNonPlatformCallables ::
  "program \<Rightarrow> nat \<Rightarrow> callableContainer list \<Rightarrow> callableContainer list" where
  "ancestorNonPlatformCallables P r containers =
     filter (\<lambda>c. cc_scope c \<noteq> platformScope P \<and> cc_scope c \<noteq> r) containers"

definition overridesAncestorDiagnostic ::
  "program \<Rightarrow> callableContainer \<Rightarrow> callableContainer \<Rightarrow> diagnostic" where
  "overridesAncestorDiagnostic P container shadowedCallable =
     \<lparr>d_info = overridesAncestorFunction
                 (c_name (cc_callable container))
                 (name (scopes P (cc_scope container)))
                 (c_pkgPath (cc_callable shadowedCallable))
                 (name (scopes P (cc_scope shadowedCallable))),
      d_range = c_nameRange (cc_callable container),
      d_file = c_pathAbsolute (cc_callable container)\<rparr>"

definition duplicateFunctionDiagnostic :: "program \<Rightarrow> callableContainer \<Rightarrow> diagnostic" where
  "duplicateFunctionDiagnostic P callableContainer =
     (let callable = cc_callable callableContainer
      in \<lparr>d_info = duplicateFunctionImplementation (c_name callable)
                     (name (scopes P (cc_scope callableContainer))),
          d_range = Range_create
                      (line (range_start (c_nameRange callable)))
                      (character (range_start (c_nameRange callable)))
                      (line (range_start (c_nameRange callable)))
                      (character (range_end (c_nameRange callable))),
          d_file = c_pathAbsolute callable\<rparr>)"

text \<open>The diagnostics of one bucket: the overriding ones, then the duplicate ones.\<close>

definition bucketDiagnostics ::
  "program \<Rightarrow> nat \<Rightarrow> string \<times> callableContainer list \<Rightarrow> diagnostic list" where
  "bucketDiagnostics P r bucket =
     (let lowerName = fst bucket;
          own = ownCallables P r (snd bucket);
          anc = ancestorNonPlatformCallables P r (snd bucket)
      in (if length own > 0 \<and> length anc > 0
          then concat (map (\<lambda>container.
                              if lowerName \<noteq> ''init''
                              then [overridesAncestorDiagnostic P container (anc ! (length anc - 1))]
                              else [])
                         own)
          else [])
         @ (if length own > 1 then map (duplicateFunctionDiagnostic P) own else []))"

definition diagnosticFindDuplicateFunctionDeclarations ::
  "nat \<Rightarrow> callableContainer list dict \<Rightarrow> program \<Rightarrow> program" where
  "diagnosticFindDuplicateFunctionDeclarations r callableContainersByLowerName P =
     pushDiagnostics r (concat (map (bucketDiagnostics P r) callableContainersByLowerName)) P"

section \<open>The checks made for each file\<close>

text \<open>
  \<open>m[lowerName] ? m[lowerName][0] : undefined\<close>: the first container of a bucket, or
  \<open>None\<close> for \<open>undefined\<close>. An inherited value is truthy and has no element \<open>0\<close>.
\<close>

definition firstOfBucket ::
  "callableContainer list dict \<Rightarrow> string \<Rightarrow> callableContainer option" where
  "firstOfBucket m lowerName =
     (case obj_get m lowerName of
        Undefined \<Rightarrow> None
      | Inherited \<Rightarrow> None
      | Own containers \<Rightarrow> (case containers of [] \<Rightarrow> None | c # _ \<Rightarrow> Some c))"

text \<open>The loop that counts the parameters: the result is \<open>(minParams, maxParams)\<close>.\<close>

definition countParams :: "functionParameter list \<Rightarrow> nat \<times> nat" where
  "countParams ps =
     fold (\<lambda>param (minParams, maxParams).
             (if isOptional param = False then minParams + 1 else minParams, maxParams + 1))
       ps (0, 0)"

definition minMaxParamsText :: "nat \<Rightarrow> nat \<Rightarrow> numberOrString" where
  "minMaxParamsText minParams maxParams =
     (if minParams = maxParams then Num maxParams
      else Str (stringOfNat minParams @ ''-'' @ stringOfNat maxParams))"

definition wrongParamCountDiagnostics ::
  "bscFile \<Rightarrow> callableContainer list dict \<Rightarrow> functionCall \<Rightarrow> diagnostic list" where
  "wrongParamCountDiagnostics f m expCall =
     (case firstOfBucket m (toLowerCase (fc_name expCall)) of
        None \<Rightarrow> []
      | Some knownCallableContainer \<Rightarrow>
          (let (minParams, maxParams) = countParams (params (cc_callable knownCallableContainer));
               expCallArgCount = length (args expCall)
           in if length (args expCall) > maxParams \<or> length (args expCall) < minParams
              then [\<lparr>d_info = mismatchArgumentCount (minMaxParamsText minParams maxParams)
                                 expCallArgCount,
                     d_range = fc_nameRange expCall,
                     d_file = pathAbsolute f\<rparr>]
              else []))"

definition diagnosticDetectFunctionCallsWithWrongParamCount ::
  "nat \<Rightarrow> bscFile \<Rightarrow> callableContainer list dict \<Rightarrow> program \<Rightarrow> program" where
  "diagnosticDetectFunctionCallsWithWrongParamCount r f m P =
     pushDiagnostics r (concat (map (wrongParamCountDiagnostics f m) (functionCalls f))) P"

text \<open>\<open>!scope?.getVariableByName(lowerName)\<close>.\<close>

definition noVariableWithName :: "bscFile \<Rightarrow> functionCall \<Rightarrow> bool" where
  "noVariableWithName f expCall =
     (case getFunctionScopeAtPosition f (range_start (fc_nameRange expCall)) of
        None \<Rightarrow> True
      | Some scope \<Rightarrow> getVariableByName scope (toLowerCase (fc_name expCall)) = None)"

definition unknownFunctionDiagnostics ::
  "string \<Rightarrow> bscFile \<Rightarrow> callableContainer list dict \<Rightarrow> functionCall \<Rightarrow> diagnostic list" where
  "unknownFunctionDiagnostics scopeName f m expCall =
     (if noVariableWithName f expCall
      then (case firstOfBucket m (toLowerCase (fc_name expCall)) of
              None \<Rightarrow> [\<lparr>d_info = callToUnknownFunction (fc_name expCall) scopeName,
                        d_range = fc_nameRange expCall,
                        d_file = pathAbsolute f\<rparr>]
            | Some knownCallable \<Rightarrow> [])
      else [])"

definition diagnosticDetectCallsToUnknownFunctions ::
  "nat \<Rightarrow> bscFile \<Rightarrow> callableContainer list dict \<Rightarrow> program \<Rightarrow> program" where
  "diagnosticDetectCallsToUnknownFunctions r f m P =
     pushDiagnostics r
       (concat (map (unknownFunctionDiagnostics (name (scopes P r)) f m) (functionCalls f))) P"

definition shadowedLocalVarDiagnostics ::
  "externals \<Rightarrow> bscFile \<Rightarrow> callableContainer list dict \<Rightarrow> variableDeclaration \<Rightarrow> diagnostic list" where
  "shadowedLocalVarDiagnostics X f m varDeclaration =
     (let lowerVarName = toLowerCase (v_name varDeclaration)
      in if isFunctionType varDeclaration
         then (if platformCallableMap X lowerVarName
               then [\<lparr>d_info = localVarFunctionShadowsParentFunction ''stdlib'',
                      d_range = v_nameRange varDeclaration, d_file = pathAbsolute f\<rparr>]
               else if truthyProperty (obj_get m lowerVarName)
               then [\<lparr>d_info = localVarFunctionShadowsParentFunction ''scope'',
                      d_range = v_nameRange varDeclaration, d_file = pathAbsolute f\<rparr>]
               else [])
         else if truthyProperty (obj_get m lowerVarName) \<and> \<not> platformCallableMap X lowerVarName
         then [\<lparr>d_info = localVarShadowedByScopedFunction,
                d_range = v_nameRange varDeclaration, d_file = pathAbsolute f\<rparr>]
         else [])"

definition diagnosticDetectShadowedLocalVars ::
  "externals \<Rightarrow> nat \<Rightarrow> bscFile \<Rightarrow> callableContainer list dict \<Rightarrow> program \<Rightarrow> program" where
  "diagnosticDetectShadowedLocalVars X r f m P =
     pushDiagnostics r
       (concat (map (\<lambda>scope. concat (map (shadowedLocalVarDiagnostics X f m)
                                        (variableDeclarations scope)))
                  (functionScopes f))) P"

definition diagnosticDetectFunctionCollisions ::
  "externals \<Rightarrow> nat \<Rightarrow> bscFile \<Rightarrow> program \<Rightarrow> program" where
  "diagnosticDetectFunctionCollisions X r f P =
     pushDiagnostics r
       (concat (map (\<lambda>func. if platformCallableMap X (toLowerCase (getName_bs func))
                            then [\<lparr>d_info = scopeFunctionShadowedByBuiltInFunction,
                                   d_range = c_nameRange func, d_file = pathAbsolute f\<rparr>]
                            else [])
                  (callables f))) P"

definition validateClasses :: "externals \<Rightarrow> nat \<Rightarrow> program \<Rightarrow> program" where
  "validateClasses X r P = pushDiagnostics r (classValidator X P r) P"

section \<open>Validation of a scope\<close>

definition perFileChecks ::
  "externals \<Rightarrow> nat \<Rightarrow> callableContainer list dict \<Rightarrow> bscFile \<Rightarrow> program \<Rightarrow> program" where
  "perFileChecks X r m f P =
     diagnosticDetectFunctionCollisions X r f
       (diagnosticDetectShadowedLocalVars X r f m
          (diagnosticDetectFunctionCallsWithWrongParamCount r f m
             (diagnosticDetectCallsToUnknownFunctions r f m P)))"

text \<open>
  \<open>Scope.validate(force)\<close>. The call \<open>this.parentScope.validate(force)\<close> is dispatched on
  the class of the parent, so it is the argument \<open>dispatch\<close>. \<open>None\<close>: the call does
  not return: the validation of the parent has thrown, or the recursion up the parent links
  did not come back within the bound.
\<close>

definition Scope_validate ::
  "(nat \<Rightarrow> bool \<Rightarrow> program \<Rightarrow> program option) \<Rightarrow> nat \<Rightarrow> externals \<Rightarrow> nat \<Rightarrow> bool
     \<Rightarrow> program \<Rightarrow> program option" where
  "Scope_validate dispatch fuel X r force P =
     (if isValidated (scopes P r) = True \<and> \<not> force then Some P
      else
        (case (case parentScope (scopes P r) of
                 None \<Rightarrow> Some P
               | Some p \<Rightarrow>
                   if isValidated (scopes P p) = False then dispatch p force P else Some P) of
           None \<Rightarrow> None
         | Some P1 \<Rightarrow>
             (let P2 = updScope r (\<lambda>s. s\<lparr>diagnostics := []\<rparr>) P1
              in case getAllCallables fuel P2 r of
                   None \<Rightarrow> None
                 | Some allCallables \<Rightarrow>
                     (let sorted = sortWith (compareCallables X) allCallables;
                          callableContainerMap = getCallableContainersByLowerName sorted;
                          P3 = diagnosticFindDuplicateFunctionDeclarations r callableContainerMap P2;
                          P4 = validateClasses X r P3;
                          P5 = fold (\<lambda>kv. perFileChecks X r callableContainerMap (snd kv))
                                 (files (scopes P4 r)) P4
                      in Some (updScope r (set_isValidated True) P5)))))"

section \<open>The descriptor scope\<close>

text \<open>
  Modelled from the spec: \<open>XmlFile.getAncestorScriptTagImports\<close>, which is not part of the
  sources at hand: the script imports of all transitive resolved parents, concatenated,
  parents first. The argument is the resolved parent to start from; \<open>None\<close> as a result
  says that the chain of parents did not end within the bound.
\<close>

fun getAncestorScriptTagImports ::
  "nat \<Rightarrow> program \<Rightarrow> nat option \<Rightarrow> fileReference list option" where
  "getAncestorScriptTagImports 0 P parent = None"
| "getAncestorScriptTagImports (Suc n) P None = Some []"
| "getAncestorScriptTagImports (Suc n) P (Some p) =
     (case getAncestorScriptTagImports n P (x_parent (xmlFiles P p)) of
        None \<Rightarrow> None
      | Some rest \<Rightarrow> Some (scriptTagImports (xmlFiles P p) @ rest))"

text \<open>What a function throws.\<close>

datatype error = TypeError

text \<open>
  The lookup from pkgPath to the first ancestor import of that path. \<open>!lookup[pkgPath]\<close>
  is false for an own property and for an inherited one, so no inherited name is ever
  written.
\<close>

definition buildImportLookup :: "fileReference list \<Rightarrow> fileReference dict" where
  "buildImportLookup parentScriptImports =
     fold (\<lambda>parentScriptImport lookup.
             if \<not> truthyProperty (obj_get lookup (fr_pkgPath parentScriptImport))
             then dict_set lookup (fr_pkgPath parentScriptImport) parentScriptImport
             else lookup)
       parentScriptImports []"

text \<open>
  The body of the loop over the descriptor's own imports. An inherited value is truthy and
  has no \<open>sourceFile\<close>, so reading \<open>componentName\<close> from that throws.
\<close>

definition duplicateImportDiagnostics ::
  "program \<Rightarrow> string \<Rightarrow> fileReference dict \<Rightarrow> fileReference \<Rightarrow> error + diagnostic list" where
  "duplicateImportDiagnostics P xmlPath lookup scriptImport =
     (case obj_get lookup (fr_pkgPath scriptImport) of
        Undefined \<Rightarrow> Inr []
      | Inherited \<Rightarrow> Inl TypeError
      | Own ancestorScriptImport \<Rightarrow>
          (let ancestorComponentName = componentName (xmlFiles P (sourceFile ancestorScriptImport))
           in Inr [\<lparr>d_info = unnecessaryScriptImportInChildFromParent ancestorComponentName,
                     d_range = filePathRange scriptImport,
                     d_file = xmlPath\<rparr>]))"

text \<open>A loop whose body returns diagnostics or throws: the first throw ends it.\<close>

fun collectDiagnostics :: "('a \<Rightarrow> error + diagnostic list) \<Rightarrow> 'a list \<Rightarrow> error + diagnostic list" where
  "collectDiagnostics body [] = Inr []"
| "collectDiagnostics body (x # xs) =
     (case body x of
        Inl e \<Rightarrow> Inl e
      | Inr ds \<Rightarrow> (case collectDiagnostics body xs of Inl e \<Rightarrow> Inl e | Inr rest \<Rightarrow> Inr (ds @ rest)))"

text \<open>
  \<open>None\<close>: the chain of resolved parents did not end within the bound. \<open>Some (Inl e)\<close>:
  the check throws \<open>e\<close>.
\<close>

definition diagnosticDetectDuplicateAncestorScriptImports ::
  "nat \<Rightarrow> nat \<Rightarrow> nat \<Rightarrow> program \<Rightarrow> (error + program) option" where
  "diagnosticDetectDuplicateAncestorScriptImports fuel r a P =
     (if x_parent (xmlFiles P a) \<noteq> None
      then (case getAncestorScriptTagImports fuel P (x_parent (xmlFiles P a)) of
              None \<Rightarrow> None
            | Some parentScriptImports \<Rightarrow>
                (let lookup = buildImportLookup parentScriptImports
                 in case collectDiagnostics
                           (duplicateImportDiagnostics P (x_pathAbsolute (xmlFiles P a)) lookup)
                           (scriptTagImports (xmlFiles P a)) of
                      Inl e \<Rightarrow> Some (Inl e)
                    | Inr ds \<Rightarrow> Some (Inr (pushDiagnostics r ds P))))
      else Some (Inr P))"

definition getFileByRelativePath :: "scope \<Rightarrow> string \<Rightarrow> bscFile option" where
  "getFileByRelativePath s relativePath =
     map_option snd
       (find (\<lambda>kv. toLowerCase (pkgPath (snd kv)) = toLowerCase relativePath) (files s))"

text \<open>
  The characters that \<open>trim\<close> removes, among the code units of the model: tab, line
  feed, vertical tab, form feed, carriage return, space and no-break space.
\<close>

definition isWhiteSpace :: "char \<Rightarrow> bool" where
  "isWhiteSpace c = (let n = (of_char c :: nat) in (9 \<le> n \<and> n \<le> 13) \<or> n = 32 \<or> n = 160)"

definition trim :: "string \<Rightarrow> string" where
  "trim s = rev (dropWhile isWhiteSpace (rev (dropWhile isWhiteSpace s)))"

definition scriptImportPathDiagnostics ::
  "scope \<Rightarrow> string \<Rightarrow> fileReference \<Rightarrow> diagnostic list" where
  "scriptImportPathDiagnostics s xmlPath scriptImport =
     (case getFileByRelativePath s (fr_pkgPath scriptImport) of
        None \<Rightarrow>
          [\<lparr>d_info = (if length (trim (fr_text scriptImport)) = 0
                       then scriptSrcCannotBeEmpty else referencedFileDoesNotExist),
            d_range = filePathRange scriptImport,
            d_file = xmlPath\<rparr>]
      | Some referencedFile \<Rightarrow>
          if fr_pkgPath scriptImport \<noteq> pkgPath referencedFile
          then [\<lparr>d_info = scriptImportCaseMismatch (pkgPath referencedFile),
                 d_range = filePathRange scriptImport,
                 d_file = xmlPath\<rparr>]
          else [])"

definition diagnosticValidateScriptImportPaths :: "nat \<Rightarrow> nat \<Rightarrow> program \<Rightarrow> program" where
  "diagnosticValidateScriptImportPaths r a P =
     pushDiagnostics r
       (concat (map (scriptImportPathDiagnostics (scopes P r) (x_pathAbsolute (xmlFiles P a)))
                  (scriptTagImports (xmlFiles P a)))) P"

text \<open>
  \<open>XmlScope.validate()\<close>, for the descriptor scope \<open>r\<close> whose descriptor is at \<open>a\<close>.
  \<open>None\<close>: the call does not return: a check has thrown, or the nested calls did not
  come back within the bound.
\<close>

definition XmlScope_validate ::
  "(nat \<Rightarrow> bool \<Rightarrow> program \<Rightarrow> program option) \<Rightarrow> nat \<Rightarrow> externals \<Rightarrow> nat \<Rightarrow> nat
     \<Rightarrow> program \<Rightarrow> program option" where
  "XmlScope_validate dispatch fuel X r a P =
     (if isValidated (scopes P r) = False
      then (case Scope_validate dispatch fuel X r False P of
              None \<Rightarrow> None
            | Some P1 \<Rightarrow>
                (let P2 = updScope r (set_isValidated False) P1
                 in case diagnosticDetectDuplicateAncestorScriptImports fuel r a P2 of
                      None \<Rightarrow> None
                    | Some (Inl e) \<Rightarrow> None
                    | Some (Inr P3) \<Rightarrow>
                        (let P4 = diagnosticValidateScriptImportPaths r a P3
                         in Some (updScope r (set_isValidated True) P4))))
      else Some P)"

text \<open>
  \<open>scope.validate(force)\<close> as a caller sees it: the method of the scope's class runs.
  The first argument bounds the number of nested calls. \<open>Some P'\<close>: the call returns and
  leaves the program \<open>P'\<close>; \<open>None\<close>: it does not return (a check has thrown, or the
  bound was too small).
\<close>

primrec validate :: "nat \<Rightarrow> externals \<Rightarrow> nat \<Rightarrow> bool \<Rightarrow> program \<Rightarrow> program option" where
  "validate 0 X = (\<lambda>r force P. None)"
| "validate (Suc n) X =
     (\<lambda>r force P.
        case xmlFile (scopes P r) of
          None \<Rightarrow> Scope_validate (validate n X) (Suc n) X r force P
        | Some a \<Rightarrow> XmlScope_validate (validate n X) (Suc n) X r a P)"

section \<open>Resolving the parent of a descriptor scope\<close>

text \<open>
  Modelled from the spec: \<open>Program.getScopeByName\<close>, which is not part of the sources at
  hand: the scope registered under the name.
\<close>

definition getScopeByName :: "program \<Rightarrow> string \<Rightarrow> nat option" where
  "getScopeByName P scopeName = dict_get (scopeRegistry P) scopeName"

definition handleXmlFileParentAttach :: "nat \<Rightarrow> nat \<Rightarrow> program \<Rightarrow> program" where
  "handleXmlFileParentAttach r fileAddr P =
     (case getScopeByName P (x_pkgPath (xmlFiles P fileAddr)) of
        None \<Rightarrow> P
      | Some parentScope' \<Rightarrow> attachParentScope r parentScope' P)"

text \<open>
  Modelled from the spec: \<open>XmlFile.attachParent\<close> and \<open>XmlFile.detachParent\<close>, which are
  not part of the sources at hand: they change the resolved parent of the descriptor and
  emit \<open>'attach-parent'\<close> and \<open>'detach-parent'\<close>. The callbacks on these two events are the
  ones that the constructor of the descriptor scope registers; \<open>r\<close> is that scope.
\<close>

definition XmlFile_attachParent :: "nat \<Rightarrow> nat \<Rightarrow> nat \<Rightarrow> program \<Rightarrow> program" where
  "XmlFile_attachParent r a fileAddr P =
     handleXmlFileParentAttach r fileAddr
       (P\<lparr>xmlFiles := (xmlFiles P)(a := (xmlFiles P a)\<lparr>x_parent := Some fileAddr\<rparr>)\<rparr>)"

definition XmlFile_detachParent :: "nat \<Rightarrow> nat \<Rightarrow> program \<Rightarrow> program" where
  "XmlFile_detachParent r a P =
     detachParent r (P\<lparr>xmlFiles := (xmlFiles P)(a := (xmlFiles P a)\<lparr>x_parent := None\<rparr>)\<rparr>)"

text \<open>
  The condition of \<open>addParentIfMatch\<close>. \<open>file instanceof XmlFile\<close> is \<open>xmlRef file\<close>
  being \<open>Some\<close>; \<open>===\<close> on two values that are a string or \<open>undefined\<close> is equality.
\<close>

definition addParentIfMatch_cond :: "program \<Rightarrow> nat \<Rightarrow> bscFile \<Rightarrow> bool" where
  "addParentIfMatch_cond P a f =
     (x_parent (xmlFiles P a) = None \<and>
      truthy (parentName (xmlFiles P a)) \<and>
      (case xmlRef f of
         None \<Rightarrow> False
       | Some fileAddr \<Rightarrow> componentName (xmlFiles P fileAddr) = parentName (xmlFiles P a)))"

definition addParentIfMatch :: "nat \<Rightarrow> nat \<Rightarrow> bscFile \<Rightarrow> program \<Rightarrow> program" where
  "addParentIfMatch r a f P =
     (if addParentIfMatch_cond P a f
      then XmlFile_attachParent r a (the (xmlRef f)) (updScope r (set_isValidated False) P)
      else P)"

definition onProgramFileRemove_cond :: "program \<Rightarrow> nat \<Rightarrow> bscFile \<Rightarrow> bool" where
  "onProgramFileRemove_cond P a f =
     (case xmlRef f of
        None \<Rightarrow> False
      | Some fileAddr \<Rightarrow>
          truthy (componentName (xmlFiles P fileAddr)) \<and>
          truthy (parentName (xmlFiles P a)) \<and>
          map_option toLowerCase (componentName (xmlFiles P fileAddr))
            = map_option toLowerCase (parentName (xmlFiles P a)))"

definition onProgramFileRemove :: "nat \<Rightarrow> nat \<Rightarrow> bscFile \<Rightarrow> program \<Rightarrow> program" where
  "onProgramFileRemove r a f P =
     (if onProgramFileRemove_cond P a f
      then detachParent r (XmlFile_detachParent r a (updScope r (set_isValidated False) P))
      else P)"

section \<open>The namespace lookup and the class lookup\<close>

definition getNamespaceStatements :: "scope \<Rightarrow> namespaceStatement list" where
  "getNamespaceStatements s = concat (map (\<lambda>kv. namespaceStatements (snd kv)) (files s))"

definition newContainer :: "string \<Rightarrow> string \<Rightarrow> namespaceContainer" where
  "newContainer loopName part =
     \<lparr>fullName = loopName, lastPartName = part, statements = [], classStatements = [],
      functionStatements = [], namespaces = []\<rparr>"

text \<open>
  The inner loop over the parts of one namespace name. \<open>loopName\<close> is \<open>None\<close> for
  \<open>null\<close>. \<open>namespaceLookup[k] = namespaceLookup[k] ?? {...}\<close> stores back whatever the
  read has found that is not \<open>undefined\<close>: for an inherited name that is the inherited
  value, which becomes an own property, except under \<open>__proto__\<close>, where the assignment
  gives the lookup the prototype it already has.
\<close>

fun ensureSections ::
  "string option \<Rightarrow> string list \<Rightarrow> lookupValue dict \<Rightarrow> lookupValue dict" where
  "ensureSections loopName [] namespaceLookup = namespaceLookup"
| "ensureSections loopName (part # parts) namespaceLookup =
     (let loopName' = (case loopName of None \<Rightarrow> part | Some l \<Rightarrow> l @ ''.'' @ part);
          lowerLoopName = toLowerCase loopName'
      in ensureSections (Some loopName') parts
           (case obj_get namespaceLookup lowerLoopName of
              Own existing \<Rightarrow> dict_set namespaceLookup lowerLoopName existing
            | Inherited \<Rightarrow>
                if lowerLoopName = ''__proto__'' then namespaceLookup
                else dict_set namespaceLookup lowerLoopName InheritedValue
            | Undefined \<Rightarrow>
                dict_set namespaceLookup lowerLoopName (Container (newContainer loopName' part))))"

fun addStatement :: "statement \<Rightarrow> namespaceContainer \<Rightarrow> namespaceContainer" where
  "addStatement (ClassStatement n) ns =
     ns\<lparr>classStatements := dict_set (classStatements ns) (toLowerCase n) (ClassStatement n)\<rparr>"
| "addStatement (FunctionStatement n) ns =
     ns\<lparr>functionStatements := dict_set (functionStatements ns) (toLowerCase n) (FunctionStatement n)\<rparr>"
| "addStatement (OtherStatement k) ns = ns"

text \<open>
  The body of the first loop for one namespace statement. What \<open>ns\<close> reads is a
  container, or it is \<open>undefined\<close> or an inherited value: then \<open>ns.statements\<close> is
  \<open>undefined\<close> and the call of \<open>push\<close> throws.
\<close>

definition addNamespace ::
  "namespaceStatement \<Rightarrow> lookupValue dict \<Rightarrow> error + lookupValue dict" where
  "addNamespace namespace namespaceLookup =
     (let nm = ns_name namespace;
          nameParts = splitOn CHR ''.'' nm;
          lookup1 = ensureSections None nameParts namespaceLookup
      in case obj_get lookup1 (toLowerCase nm) of
           Own (Container ns) \<Rightarrow>
             Inr (dict_set lookup1 (toLowerCase nm)
                    (Container (fold addStatement (ns_body namespace)
                                  (ns\<lparr>statements := statements ns @ ns_body namespace\<rparr>))))
         | _ \<Rightarrow> Inl TypeError)"

text \<open>
  The body of the second loop, for one key. Where \<open>ns\<close> or the parent is not a
  container, \<open>ns.fullName\<close> or the parent's \<open>namespaces\<close> is \<open>undefined\<close> and using
  it throws.
\<close>

definition linkToParent ::
  "string \<Rightarrow> lookupValue dict \<Rightarrow> error + lookupValue dict" where
  "linkToParent key namespaceLookup =
     (case obj_get namespaceLookup key of
        Own (Container ns) \<Rightarrow>
          (let parts = splitOn CHR ''.'' (fullName ns)
           in if length parts > 1
              then (let parentName' = joinWith CHR ''.'' (butlast parts)
                    in case obj_get namespaceLookup (toLowerCase parentName') of
                         Own (Container parent) \<Rightarrow>
                           Inr (dict_set namespaceLookup (toLowerCase parentName')
                                  (Container (parent\<lparr>namespaces :=
                                     dict_set (namespaces parent)
                                       (toLowerCase (lastPartName ns)) key\<rparr>)))
                       | _ \<Rightarrow> Inl TypeError)
              else Inr namespaceLookup)
      | _ \<Rightarrow> Inl TypeError)"

text \<open>A loop over a list whose body may throw: the first throw ends it.\<close>

fun foldError :: "('a \<Rightarrow> 's \<Rightarrow> error + 's) \<Rightarrow> 'a list \<Rightarrow> 's \<Rightarrow> error + 's" where
  "foldError f [] s = Inr s"
| "foldError f (x # xs) s = (case f x s of Inl e \<Rightarrow> Inl e | Inr s' \<Rightarrow> foldError f xs s')"

definition buildNamespaceLookupFrom ::
  "namespaceStatement list \<Rightarrow> error + lookupValue dict" where
  "buildNamespaceLookupFrom nss =
     (case foldError addNamespace nss [] of
        Inl e \<Rightarrow> Inl e
      | Inr namespaceLookup \<Rightarrow>
          foldError linkToParent (dict_keys namespaceLookup) namespaceLookup)"

definition buildNamespaceLookup :: "scope \<Rightarrow> error + lookupValue dict" where
  "buildNamespaceLookup s = buildNamespaceLookupFrom (getNamespaceStatements s)"

definition buildClassLookup :: "scope \<Rightarrow> string dict" where
  "buildClassLookup s =
     fold (\<lambda>kv lookup. fold (\<lambda>cls lk. dict_set lk (toLowerCase cls) cls)
                           (classStatementNames (snd kv)) lookup)
       (files s) []"

text \<open>
  The getters: build the lookup when it is absent, keep it, return it. When the build
  throws, so does the getter, and nothing is kept.
\<close>

definition get_namespaceLookup ::
  "nat \<Rightarrow> program \<Rightarrow> error + (lookupValue dict \<times> program)" where
  "get_namespaceLookup r P =
     (case namespaceLookup_cache (scopes P r) of
        Some lk \<Rightarrow> Inr (lk, P)
      | None \<Rightarrow>
          (case buildNamespaceLookup (scopes P r) of
             Inl e \<Rightarrow> Inl e
           | Inr lk \<Rightarrow> Inr (lk, updScope r (\<lambda>s. s\<lparr>namespaceLookup_cache := Some lk\<rparr>) P)))"

definition get_classLookup :: "nat \<Rightarrow> program \<Rightarrow> string dict \<times> program" where
  "get_classLookup r P =
     (case classLookup_cache (scopes P r) of
        Some lk \<Rightarrow> (lk, P)
      | None \<Rightarrow>
          (let lk = buildClassLookup (scopes P r)
           in (lk, updScope r (\<lambda>s. s\<lparr>classLookup_cache := Some lk\<rparr>) P)))"

section \<open>Notions used to state and prove the properties\<close>

text \<open>
  The transitive parents of a scope, nearest first, as far as \<open>k\<close> parent links reach.
\<close>

fun parentChain :: "nat \<Rightarrow> program \<Rightarrow> nat \<Rightarrow> nat list" where
  "parentChain 0 P r = []"
| "parentChain (Suc k) P r =
     (case parentScope (scopes P r) of None \<Rightarrow> [] | Some p \<Rightarrow> p # parentChain k P p)"

text \<open>The part of \<open>Scope.validate\<close> that follows the collection of the callables.\<close>

definition validateChecks ::
  "externals \<Rightarrow> nat \<Rightarrow> callableContainer list \<Rightarrow> program \<Rightarrow> program" where
  "validateChecks X r allCallables P2 =
     (let sorted = sortWith (compareCallables X) allCallables;
          callableContainerMap = getCallableContainersByLowerName sorted;
          P3 = diagnosticFindDuplicateFunctionDeclarations r callableContainerMap P2;
          P4 = validateClasses X r P3;
          P5 = fold (\<lambda>kv. perFileChecks X r callableContainerMap (snd kv))
                 (files (scopes P4 r)) P4
      in updScope r (set_isValidated True) P5)"

text \<open>
  \<open>scopeFrame r P P'\<close>: from \<open>P\<close> to \<open>P'\<close> nothing has changed but the diagnostics, the
  validation flag and the cached lookups of the scope \<open>r\<close>.
\<close>

definition scopeFrame :: "nat \<Rightarrow> program \<Rightarrow> program \<Rightarrow> bool" where
  "scopeFrame r P P' \<longleftrightarrow>
     (\<forall>a. a \<noteq> r \<longrightarrow> scopes P' a = scopes P a) \<and>
     name (scopes P' r) = name (scopes P r) \<and>
     parentScope (scopes P' r) = parentScope (scopes P r) \<and>
     xmlFile (scopes P' r) = xmlFile (scopes P r) \<and>
     emitted (scopes P' r) = emitted (scopes P r) \<and>
     files (scopes P' r) = files (scopes P r) \<and>
     xmlFiles P' = xmlFiles P \<and> platformScope P' = platformScope P"

text \<open>
  \<open>parentStep d r force P P1\<close>: \<open>P1\<close> is the program after the step of \<open>validate\<close> that
  validates the parent of \<open>r\<close> through \<open>d\<close> when the parent is not validated.
\<close>

definition parentStep ::
  "(nat \<Rightarrow> bool \<Rightarrow> program \<Rightarrow> program option) \<Rightarrow> nat \<Rightarrow> bool \<Rightarrow> program \<Rightarrow> program \<Rightarrow> bool" where
  "parentStep d r force P P1 \<longleftrightarrow>
     (case parentScope (scopes P r) of
        None \<Rightarrow> P1 = P
      | Some p \<Rightarrow> if isValidated (scopes P p) then P1 = P else d p force P = Some P1)"

text \<open>
  The resolved ancestors of a descriptor, parents first, starting from the given resolved
  parent; \<open>None\<close> when the chain of parents does not end within the bound.
\<close>

fun xmlAncestors :: "nat \<Rightarrow> program \<Rightarrow> nat option \<Rightarrow> nat list option" where
  "xmlAncestors 0 P parent = None"
| "xmlAncestors (Suc n) P None = Some []"
| "xmlAncestors (Suc n) P (Some p) =
     (case xmlAncestors n P (x_parent (xmlFiles P p)) of
        None \<Rightarrow> None
      | Some rest \<Rightarrow> Some (p # rest))"



section \<open>Example programs\<close>

text \<open>A collation for the examples: the order of the character codes.\<close>

fun codeUnitCompare :: "string \<Rightarrow> string \<Rightarrow> int" where
  "codeUnitCompare [] [] = 0"
| "codeUnitCompare [] (y # ys) = - 1"
| "codeUnitCompare (x # xs) [] = 1"
| "codeUnitCompare (x # xs) (y # ys) =
     (if (of_char x :: nat) < of_char y then - 1
      else if (of_char y :: nat) < of_char x then 1
      else codeUnitCompare xs ys)"

definition exampleExternals :: externals where
  "exampleExternals =
     \<lparr>localeCompare = codeUnitCompare,
      platformCallableMap = (\<lambda>lowerName. False),
      classValidator = (\<lambda>P r. []),
      diagnosticIsSuppressed = (\<lambda>d. False),
      standardizePath = (\<lambda>p. p)\<rparr>"

definition emptyXmlFile :: xmlFile where
  "emptyXmlFile =
     \<lparr>x_pathAbsolute = [], x_pkgPath = [], componentName = None, parentName = None,
      scriptTagImports = [], x_parent = None\<rparr>"

definition emptyProgram :: program where
  "emptyProgram =
     \<lparr>scopes = (\<lambda>a. newScope []), xmlFiles = (\<lambda>a. emptyXmlFile), scopeRegistry = [],
      platformScope = 0, nextListener = 0\<rparr>"

text \<open>
  A file with the given path below the root and pkgPath that declares functions of the
  given names and makes the given calls.
\<close>

definition brsFile :: "string \<Rightarrow> string \<Rightarrow> string list \<Rightarrow> functionCall list \<Rightarrow> bscFile" where
  "brsFile path pkg names calls =
     \<lparr>pathBelowRoot = path, pkgPath = pkg,
      callables = map (\<lambda>n. \<lparr>c_name = n, getName_bs = n, params = [],
                              c_nameRange = Range_create 0 9 0 (9 + length n),
                              c_pathAbsolute = CHR ''/'' # path, c_pkgPath = pkg\<rparr>) names,
      functionCalls = calls, functionScopes = [],
      getFunctionScopeAtPosition = (\<lambda>p. None), namespaceStatements = [],
      classStatementNames = [], fileDiagnostics = [], xmlRef = None\<rparr>"





text \<open>
  A file whose function scope declares the variable \<open>Handler\<close> and that declares the
  function \<open>doWork\<close>; it calls \<open>handler\<close>, \<open>Missing\<close> and \<open>DOWORK\<close>.
\<close>

definition ex6_scope :: functionScope where
  "ex6_scope =
     \<lparr>variableDeclarations =
        [\<lparr>v_name = ''Handler'', isFunctionType = True, v_nameRange = Range_create 1 4 1 11\<rparr>]\<rparr>"

definition ex6_calls :: "functionCall list" where
  "ex6_calls =
     [\<lparr>fc_name = ''handler'', args = [], fc_nameRange = Range_create 2 4 2 11\<rparr>,
      \<lparr>fc_name = ''Missing'', args = [], fc_nameRange = Range_create 3 4 3 11\<rparr>,
      \<lparr>fc_name = ''DOWORK'', args = [], fc_nameRange = Range_create 4 4 4 10\<rparr>]"

definition ex6_file :: bscFile where
  "ex6_file =
     (brsFile ''src/main.brs'' ''source/main.brs'' [''doWork''] ex6_calls)
       \<lparr>functionScopes := [ex6_scope], getFunctionScopeAtPosition := (\<lambda>p. Some ex6_scope)\<rparr>"

definition ex6_map :: "callableContainer list dict" where
  "ex6_map =
     getCallableContainersByLowerName
       (map (\<lambda>c. \<lparr>cc_callable = c, cc_scope = 1\<rparr>) (callables ex6_file))"


text \<open>
  Four scopes in a chain: \<open>leaf\<close> (3) has the parent \<open>mid\<close> (2), which has the parent
  \<open>base\<close> (1), which has the platform scope (0) as its parent. Each of the three declares
  \<open>doWork\<close>, \<open>mid\<close> in \<open>/a.brs\<close>, \<open>leaf\<close> in \<open>/m.brs\<close> and \<open>base\<close> in \<open>/z.brs\<close>.
\<close>

definition ex3_program :: program where
  "ex3_program =
     addOrReplaceFile exampleExternals 3 (brsFile ''m.brs'' ''source/m.brs'' [''doWork''] [])
       (addOrReplaceFile exampleExternals 2 (brsFile ''a.brs'' ''source/a.brs'' [''doWork''] [])
          (addOrReplaceFile exampleExternals 1 (brsFile ''z.brs'' ''source/z.brs'' [''doWork''] [])
             (attachParentScope 3 2
                (attachParentScope 2 1
                   (attachParentScope 1 0
                      (emptyProgram\<lparr>scopes := (\<lambda>a. newScope [])
                          (0 := newScope ''platform'', 1 := newScope ''base'',
                           2 := newScope ''mid'', 3 := newScope ''leaf'')\<rparr>))))))"

text \<open>
  Two scopes fresh from their constructors: \<open>source\<close> (1) with the platform scope (0) as
  its parent.
\<close>

definition ex1_program :: program where
  "ex1_program =
     attachParentScope 1 0
       (emptyProgram\<lparr>scopes := (\<lambda>a. newScope [])
           (0 := newScope ''platform'', 1 := newScope ''source'')\<rparr>)"

text \<open>
  The same two scopes after the namespace lookup and the class lookup of \<open>source\<close> have
  been read, so that both are cached.
\<close>

definition ex9_program :: program where
  "ex9_program = snd (get_classLookup 1 (snd (projr (get_namespaceLookup 1 ex1_program))))"

text \<open>
  A scope \<open>leaf\<close> (2) attached to its parent \<open>base\<close> (1), both validated, and a file
  that \<open>base\<close> does not hold yet.
\<close>

definition ex4_program :: program where
  "ex4_program =
     the (validate 3 exampleExternals 2 False
            (attachParentScope 2 1
               (emptyProgram\<lparr>scopes := (\<lambda>a. newScope [])
                   (0 := newScope ''platform'', 1 := newScope ''base'', 2 := newScope ''leaf'')\<rparr>)))"

definition ex4_file :: bscFile where
  "ex4_file = brsFile ''lib.brs'' ''source/lib.brs'' [''helper''] []"



text \<open>
  Three descriptors: \<open>Child\<close> (1) extends \<open>Mid\<close> (2), which extends \<open>Base\<close> (3).
  \<open>Child\<close> imports \<open>util.brs\<close>, which both ancestors import, \<open>base.brs\<close>, which
  \<open>Base\<close> imports, and \<open>child.brs\<close>. The descriptor scope of \<open>Child\<close> is at 4.
\<close>

definition scriptImport :: "string \<Rightarrow> nat \<Rightarrow> nat \<Rightarrow> fileReference" where
  "scriptImport path ln src =
     \<lparr>fr_pkgPath = path, fr_text = ''pkg:/'' @ path,
      filePathRange = Range_create ln 17 ln (22 + length path), sourceFile = src\<rparr>"

definition ex8_program :: program where
  "ex8_program =
     emptyProgram
       \<lparr>scopes := (\<lambda>a. newScope [])
           (0 := newScope ''platform'',
            4 := (newScope ''components/Child.xml'')\<lparr>xmlFile := Some 1\<rparr>),
        xmlFiles := (\<lambda>a. emptyXmlFile)
           (1 := \<lparr>x_pathAbsolute = ''/components/Child.xml'', x_pkgPath = ''components/Child.xml'',
                  componentName = Some ''Child'', parentName = Some ''Mid'',
                  scriptTagImports = [scriptImport ''source/util.brs'' 2 1,
                                      scriptImport ''source/base.brs'' 3 1,
                                      scriptImport ''source/child.brs'' 4 1],
                  x_parent = Some 2\<rparr>,
            2 := \<lparr>x_pathAbsolute = ''/components/Mid.xml'', x_pkgPath = ''components/Mid.xml'',
                  componentName = Some ''Mid'', parentName = Some ''Base'',
                  scriptTagImports = [scriptImport ''source/util.brs'' 2 2],
                  x_parent = Some 3\<rparr>,
            3 := \<lparr>x_pathAbsolute = ''/components/Base.xml'', x_pkgPath = ''components/Base.xml'',
                  componentName = Some ''Base'', parentName = None,
                  scriptTagImports = [scriptImport ''source/base.brs'' 2 3,
                                      scriptImport ''source/util.brs'' 3 3],
                  x_parent = None\<rparr>)\<rparr>"

text \<open>
  The same program with one more descriptor (5), a component named \<open>mid\<close>, which is not
  the parent \<open>Mid\<close> of \<open>Child\<close>; and the program in which the parent of \<open>Child\<close> has
  not been resolved yet.
\<close>

definition ex10_program :: program where
  "ex10_program =
     ex8_program
       \<lparr>xmlFiles := (xmlFiles ex8_program)
           (5 := \<lparr>x_pathAbsolute = ''/components/Other.xml'', x_pkgPath = ''components/Other.xml'',
                  componentName = Some ''mid'', parentName = None,
                  scriptTagImports = [], x_parent = None\<rparr>)\<rparr>"

definition ex10_file :: bscFile where
  "ex10_file =
     (brsFile ''components/Other.xml'' ''components/Other.xml'' [] [])\<lparr>xmlRef := Some 5\<rparr>"

definition ex10_unresolved :: program where
  "ex10_unresolved =
     ex10_program\<lparr>xmlFiles := (xmlFiles ex10_program)
                     (1 := (xmlFiles ex10_program 1)\<lparr>x_parent := None\<rparr>)\<rparr>"

text \<open>
  A scope with one file that declares the namespace \<open>NameA.NameB.NameC\<close>, and the
  container that the lookup holds for it.
\<close>

definition ex7_scope :: scope where
  "ex7_scope =
     (newScope ''source'')
       \<lparr>files :=
          [(''/src/lib.bs'',
            (brsFile ''src/lib.bs'' ''source/lib.bs'' [] [])
              \<lparr>namespaceStatements :=
                 [\<lparr>ns_name = ''NameA.NameB.NameC'',
                   ns_body = [FunctionStatement ''doWork'', ClassStatement ''Worker'']\<rparr>]\<rparr>)]\<rparr>"

definition ex7_container :: namespaceContainer where
  "ex7_container =
     \<lparr>fullName = ''NameA.NameB.NameC'', lastPartName = ''NameC'',
      statements = [FunctionStatement ''doWork'', ClassStatement ''Worker''],
      classStatements = [(''worker'', ClassStatement ''Worker'')],
      functionStatements = [(''dowork'', FunctionStatement ''doWork'')],
      namespaces = []\<rparr>"

text \<open>
  A scope with one file that declares the namespace \<open>constructor\<close>, and one whose file
  declares the namespace \<open>Constructor.Utils\<close>.
\<close>

definition ex7_constructor :: scope where
  "ex7_constructor =
     (newScope ''source'')
       \<lparr>files :=
          [(''/src/lib.bs'',
            (brsFile ''src/lib.bs'' ''source/lib.bs'' [] [])
              \<lparr>namespaceStatements := [\<lparr>ns_name = ''constructor'', ns_body = []\<rparr>]\<rparr>)]\<rparr>"

definition ex7_dotted_constructor :: scope where
  "ex7_dotted_constructor =
     (newScope ''source'')
       \<lparr>files :=
          [(''/src/lib.bs'',
            (brsFile ''src/lib.bs'' ''source/lib.bs'' [] [])
              \<lparr>namespaceStatements := [\<lparr>ns_name = ''Constructor.Utils'', ns_body = []\<rparr>]\<rparr>)]\<rparr>"

text \<open>
  Two descriptors: \<open>Child\<close> (1) extends \<open>Base\<close> (2), and both import the script
  \<open>pkg:/constructor\<close>; next to it the program in which the script is named
  \<open>pkg:/builder\<close> instead. The descriptor scope of \<open>Child\<close> is at 4.
\<close>

definition importingProgram :: "string \<Rightarrow> program" where
  "importingProgram path =
     emptyProgram
       \<lparr>scopes := (\<lambda>a. newScope [])
           (0 := newScope ''platform'',
            4 := (newScope ''components/Child.xml'')\<lparr>xmlFile := Some 1\<rparr>),
        xmlFiles := (\<lambda>a. emptyXmlFile)
           (1 := \<lparr>x_pathAbsolute = ''/components/Child.xml'', x_pkgPath = ''components/Child.xml'',
                  componentName = Some ''Child'', parentName = Some ''Base'',
                  scriptTagImports = [scriptImport path 2 1],
                  x_parent = Some 2\<rparr>,
            2 := \<lparr>x_pathAbsolute = ''/components/Base.xml'', x_pkgPath = ''components/Base.xml'',
                  componentName = Some ''Base'', parentName = None,
                  scriptTagImports = [scriptImport path 2 2],
                  x_parent = None\<rparr>)\<rparr>"


section \<open>Lemmas about the model\<close>





lemma diagnostics_pushDiagnostics:
  "diagnostics (scopes (pushDiagnostics r ds P) r) = diagnostics (scopes P r) @ ds"
  by (simp add: pushDiagnostics_def updScope_def)




lemma concat_map_if:
  "concat (map (\<lambda>x. if c x then [g x] else []) xs) = map g (filter c xs)"
  by (induction xs) auto

lemma scopes_updScope: "scopes (updScope r f P) a = (if a = r then f (scopes P r) else scopes P a)"
  by (simp add: updScope_def)

lemma platformScope_updScope [simp]: "platformScope (updScope r f P) = platformScope P"
  by (simp add: updScope_def)

lemma xmlFiles_updScope [simp]: "xmlFiles (updScope r f P) = xmlFiles P"
  by (simp add: updScope_def)

lemma bucketDiagnostics_eq:
  "bucketDiagnostics P r (lowerName, containers) =
     (if ownCallables P r containers \<noteq> [] \<and> ancestorNonPlatformCallables P r containers \<noteq> []
         \<and> lowerName \<noteq> ''init''
      then map (\<lambda>c. overridesAncestorDiagnostic P c (last (ancestorNonPlatformCallables P r containers)))
             (ownCallables P r containers)
      else [])
     @ (if length (ownCallables P r containers) > 1
        then map (duplicateFunctionDiagnostic P) (ownCallables P r containers) else [])"
  by (auto simp: bucketDiagnostics_def Let_def last_conv_nth concat_map_if
      intro!: arg_cong [where f = concat])

lemma diagnostics_diagnosticFindDuplicateFunctionDeclarations:
  "diagnostics (scopes (diagnosticFindDuplicateFunctionDeclarations r m P) r) =
     diagnostics (scopes P r) @ concat (map (bucketDiagnostics P r) m)"
  by (simp add: diagnosticFindDuplicateFunctionDeclarations_def diagnostics_pushDiagnostics)

lemma bucket_in_concat:
  "bucket \<in> set m \<Longrightarrow> d \<in> set (bucketDiagnostics P r bucket) \<Longrightarrow>
     d \<in> set (concat (map (bucketDiagnostics P r) m))"
  by auto

lemma Scope_validate_cases:
  assumes "Scope_validate d fuel X r force P = Some P'"
  shows "(isValidated (scopes P r) \<and> \<not> force \<and> P' = P)
         \<or> (\<not> (isValidated (scopes P r) \<and> \<not> force) \<and> (\<exists>Q. P' = updScope r (set_isValidated True) Q))"
  using assms
  by (auto simp: Scope_validate_def Let_def split: if_splits option.splits)

lemma XmlScope_validate_cases:
  assumes "XmlScope_validate d fuel X r a P = Some P'"
  shows "(isValidated (scopes P r) \<and> P' = P)
         \<or> (\<not> isValidated (scopes P r) \<and> (\<exists>Q. P' = updScope r (set_isValidated True) Q))"
  using assms
  by (auto simp: XmlScope_validate_def Let_def split: if_splits option.splits sum.splits)

lemma validate_cases:
  assumes "validate n X r force P = Some P'"
  shows "(isValidated (scopes P r) \<and> P' = P \<and> (force \<longrightarrow> xmlFile (scopes P r) \<noteq> None))
         \<or> ((\<not> isValidated (scopes P r) \<or> (force \<and> xmlFile (scopes P r) = None))
             \<and> (\<exists>Q. P' = updScope r (set_isValidated True) Q))"
proof (cases n)
  case 0
  then show ?thesis using assms by simp
next
  case (Suc k)
  show ?thesis
  proof (cases "xmlFile (scopes P r)")
    case None
    then have "Scope_validate (validate k X) (Suc k) X r force P = Some P'"
      using assms Suc by simp
    from Scope_validate_cases [OF this] None show ?thesis by auto
  next
    case (Some a)
    then have "XmlScope_validate (validate k X) (Suc k) X r a P = Some P'"
      using assms Suc by simp
    from XmlScope_validate_cases [OF this] Some show ?thesis by auto
  qed
qed

lemma scopeFrame_refl [simp]: "scopeFrame r P P"
  by (simp add: scopeFrame_def)

lemma scopeFrame_trans: "scopeFrame r P Q \<Longrightarrow> scopeFrame r Q R \<Longrightarrow> scopeFrame r P R"
  by (simp add: scopeFrame_def)

lemma scopeFrame_pushDiagnostics [simp]: "scopeFrame r P (pushDiagnostics r ds P)"
  by (simp add: scopeFrame_def pushDiagnostics_def updScope_def)

lemma scopeFrame_set_isValidated [simp]: "scopeFrame r P (updScope r (set_isValidated v) P)"
  by (simp add: scopeFrame_def set_isValidated_def updScope_def)

lemma scopeFrame_clear [simp]: "scopeFrame r P (updScope r (\<lambda>s. s\<lparr>diagnostics := []\<rparr>) P)"
  by (simp add: scopeFrame_def updScope_def)

lemma scopeFrame_perFileChecks: "scopeFrame r P (perFileChecks X r m f P)"
proof -
  let ?P1 = "diagnosticDetectCallsToUnknownFunctions r f m P"
  let ?P2 = "diagnosticDetectFunctionCallsWithWrongParamCount r f m ?P1"
  let ?P3 = "diagnosticDetectShadowedLocalVars X r f m ?P2"
  have 1: "scopeFrame r P ?P1"
    by (simp add: diagnosticDetectCallsToUnknownFunctions_def)
  have 2: "scopeFrame r ?P1 ?P2"
    by (simp add: diagnosticDetectFunctionCallsWithWrongParamCount_def)
  have 3: "scopeFrame r ?P2 ?P3"
    by (simp add: diagnosticDetectShadowedLocalVars_def)
  have 4: "scopeFrame r ?P3 (diagnosticDetectFunctionCollisions X r f ?P3)"
    by (simp add: diagnosticDetectFunctionCollisions_def)
  show ?thesis
    unfolding perFileChecks_def
    by (rule scopeFrame_trans [OF scopeFrame_trans [OF scopeFrame_trans [OF 1 2] 3] 4])
qed

lemma scopeFrame_fold_perFileChecks:
  "scopeFrame r P (fold (\<lambda>kv. perFileChecks X r m (snd kv)) fs P)"
proof (induction fs arbitrary: P)
  case Nil
  show ?case by simp
next
  case (Cons kv fs)
  show ?case
    using scopeFrame_trans [OF scopeFrame_perFileChecks Cons.IH] by simp
qed

lemma Scope_validate_eq:
  "Scope_validate d fuel X r force P =
     (if isValidated (scopes P r) \<and> \<not> force then Some P
      else
        (case (case parentScope (scopes P r) of
                 None \<Rightarrow> Some P
               | Some p \<Rightarrow> if \<not> isValidated (scopes P p) then d p force P else Some P) of
           None \<Rightarrow> None
         | Some P1 \<Rightarrow>
             (case getAllCallables fuel (updScope r (\<lambda>s. s\<lparr>diagnostics := []\<rparr>) P1) r of
                None \<Rightarrow> None
              | Some allCallables \<Rightarrow>
                  Some (validateChecks X r allCallables
                          (updScope r (\<lambda>s. s\<lparr>diagnostics := []\<rparr>) P1)))))"
  by (simp add: Scope_validate_def validateChecks_def Let_def split: option.splits)

lemma scopeFrame_validateChecks: "scopeFrame r P (validateChecks X r cs P)"
proof -
  let ?m = "getCallableContainersByLowerName (sortWith (compareCallables X) cs)"
  let ?P3 = "diagnosticFindDuplicateFunctionDeclarations r ?m P"
  let ?P4 = "validateClasses X r ?P3"
  let ?P5 = "fold (\<lambda>kv. perFileChecks X r ?m (snd kv)) (files (scopes ?P4 r)) ?P4"
  have 1: "scopeFrame r P ?P3"
    by (simp add: diagnosticFindDuplicateFunctionDeclarations_def)
  have 2: "scopeFrame r ?P3 ?P4"
    by (simp add: validateClasses_def)
  have 3: "scopeFrame r ?P4 ?P5"
    by (rule scopeFrame_fold_perFileChecks)
  have 4: "scopeFrame r ?P5 (updScope r (set_isValidated True) ?P5)"
    by simp
  have "validateChecks X r cs P = updScope r (set_isValidated True) ?P5"
    by (simp add: validateChecks_def Let_def)
  then show ?thesis
    using scopeFrame_trans [OF scopeFrame_trans [OF scopeFrame_trans [OF 1 2] 3] 4] by simp
qed

lemma isValidated_validateChecks: "isValidated (scopes (validateChecks X r cs P) r)"
  by (simp add: validateChecks_def Let_def scopes_updScope set_isValidated_def)

lemma Scope_validate_step:
  assumes "Scope_validate d fuel X r force P = Some P'"
    and "\<not> (isValidated (scopes P r) \<and> \<not> force)"
  shows "\<exists>P1. parentStep d r force P P1 \<and> scopeFrame r P1 P' \<and> isValidated (scopes P' r)"
proof -
  from assms obtain P1 allCallables where
    ps: "parentStep d r force P P1"
    and P': "P' = validateChecks X r allCallables (updScope r (\<lambda>s. s\<lparr>diagnostics := []\<rparr>) P1)"
    unfolding Scope_validate_eq parentStep_def
    by (auto split: if_splits option.splits)
  have "scopeFrame r P1 P'"
    unfolding P' by (rule scopeFrame_trans [OF scopeFrame_clear scopeFrame_validateChecks])
  moreover have "isValidated (scopes P' r)"
    unfolding P' by (rule isValidated_validateChecks)
  ultimately show ?thesis using ps by blast
qed

lemma XmlScope_validate_step:
  assumes "XmlScope_validate d fuel X r a P = Some P'"
    and "\<not> isValidated (scopes P r)"
  shows "\<exists>P1. parentStep d r False P P1 \<and> scopeFrame r P1 P' \<and> isValidated (scopes P' r)"
proof -
  from assms obtain Q Q3 where
    sv: "Scope_validate d fuel X r False P = Some Q"
    and dd: "diagnosticDetectDuplicateAncestorScriptImports fuel r a (updScope r (set_isValidated False) Q) = Some (Inr Q3)"
    and P': "P' = updScope r (set_isValidated True) (diagnosticValidateScriptImportPaths r a Q3)"
    by (auto simp: XmlScope_validate_def Let_def split: if_splits option.splits sum.splits)
  from Scope_validate_step [OF sv] assms(2) obtain P1 where
    ps: "parentStep d r False P P1" and fr: "scopeFrame r P1 Q"
    by auto
  have f3: "scopeFrame r (updScope r (set_isValidated False) Q) Q3"
    using dd
    by (auto simp: diagnosticDetectDuplicateAncestorScriptImports_def Let_def
        split: if_splits option.splits sum.splits)
  have f2: "scopeFrame r Q (updScope r (set_isValidated False) Q)"
    by simp
  have f4: "scopeFrame r Q3 (diagnosticValidateScriptImportPaths r a Q3)"
    by (simp add: diagnosticValidateScriptImportPaths_def)
  have f5: "scopeFrame r (diagnosticValidateScriptImportPaths r a Q3) P'"
    unfolding P' by simp
  have "scopeFrame r P1 P'"
    by (rule scopeFrame_trans [OF scopeFrame_trans [OF scopeFrame_trans [OF scopeFrame_trans [OF fr f2] f3] f4] f5])
  moreover have "isValidated (scopes P' r)"
    unfolding P' by (simp add: scopes_updScope set_isValidated_def)
  ultimately show ?thesis using ps by blast
qed

lemma validate_step:
  assumes "validate (Suc k) X r force P = Some P'"
  shows "(isValidated (scopes P r) \<and> P' = P)
         \<or> (\<exists>P1 force'. parentStep (validate k X) r force' P P1 \<and> scopeFrame r P1 P'
                \<and> isValidated (scopes P' r))"
proof (cases "xmlFile (scopes P r)")
  case None
  then have sv: "Scope_validate (validate k X) (Suc k) X r force P = Some P'"
    using assms by simp
  show ?thesis
  proof (cases "isValidated (scopes P r) \<and> \<not> force")
    case True
    then show ?thesis using sv by (simp add: Scope_validate_def)
  next
    case False
    from Scope_validate_step [OF sv False] show ?thesis by blast
  qed
next
  case (Some a)
  then have xv: "XmlScope_validate (validate k X) (Suc k) X r a P = Some P'"
    using assms by simp
  show ?thesis
  proof (cases "isValidated (scopes P r)")
    case True
    then show ?thesis using xv by (simp add: XmlScope_validate_def)
  next
    case False
    from XmlScope_validate_step [OF xv False] show ?thesis by blast
  qed
qed

lemma validate_preserves:
  "validate n X r force P = Some P' \<Longrightarrow>
     (\<forall>a. parentScope (scopes P' a) = parentScope (scopes P a)) \<and>
     (\<forall>a. isValidated (scopes P a) \<longrightarrow> isValidated (scopes P' a)) \<and>
     isValidated (scopes P' r)"
proof (induction n arbitrary: r force P P')
  case 0
  then show ?case by simp
next
  case (Suc k)
  from validate_step [OF Suc.prems]
  show ?case
  proof (elim disjE conjE exE)
    assume "isValidated (scopes P r)" "P' = P"
    then show ?thesis by simp
  next
    fix P1 force'
    assume ps: "parentStep (validate k X) r force' P P1"
      and fr: "scopeFrame r P1 P'" and v: "isValidated (scopes P' r)"
    have P1: "(\<forall>a. parentScope (scopes P1 a) = parentScope (scopes P a)) \<and>
              (\<forall>a. isValidated (scopes P a) \<longrightarrow> isValidated (scopes P1 a))"
      using ps Suc.IH unfolding parentStep_def
      by (auto split: option.splits if_splits)
    have "parentScope (scopes P' a) = parentScope (scopes P1 a)" for a
      using fr by (cases "a = r") (auto simp: scopeFrame_def)
    moreover have "isValidated (scopes P1 a) \<longrightarrow> isValidated (scopes P' a)" for a
      using fr v by (cases "a = r") (auto simp: scopeFrame_def)
    ultimately show ?thesis using P1 v by auto
  qed
qed

lemma parentChain_cong:
  "(\<forall>a. parentScope (scopes P' a) = parentScope (scopes P a)) \<Longrightarrow>
     parentChain k P' r = parentChain k P r"
  by (induction k arbitrary: r) (auto split: option.splits)

lemma parentChain_closed:
  assumes "isValidated (scopes P r)"
    and "\<forall>k. \<forall>a \<in> set (r # parentChain k P r). isValidated (scopes P a) \<longrightarrow>
           (\<forall>p. parentScope (scopes P a) = Some p \<longrightarrow> isValidated (scopes P p))"
  shows "\<forall>a \<in> set (parentChain k P r). isValidated (scopes P a)"
  using assms
proof (induction k arbitrary: r)
  case 0
  show ?case by simp
next
  case (Suc k)
  show ?case
  proof (cases "parentScope (scopes P r)")
    case None
    then show ?thesis by simp
  next
    case (Some p)
    have vp: "isValidated (scopes P p)"
      using Suc.prems Some by (auto dest: spec [where x = 0])
    have "\<forall>j. \<forall>a \<in> set (p # parentChain j P p). isValidated (scopes P a) \<longrightarrow>
           (\<forall>q. parentScope (scopes P a) = Some q \<longrightarrow> isValidated (scopes P q))"
    proof (intro allI ballI)
      fix j a assume "a \<in> set (p # parentChain j P p)"
      then have "a \<in> set (r # parentChain (Suc j) P r)" using Some by simp
      then show "isValidated (scopes P a) \<longrightarrow>
           (\<forall>q. parentScope (scopes P a) = Some q \<longrightarrow> isValidated (scopes P q))"
        using Suc.prems(2) by blast
    qed
    from Suc.IH [OF vp this] vp Some show ?thesis by simp
  qed
qed

lemma validate_chain:
  assumes "validate n X r force P = Some P'"
    and "\<forall>k. \<forall>a \<in> set (r # parentChain k P r). isValidated (scopes P a) \<longrightarrow>
           (\<forall>p. parentScope (scopes P a) = Some p \<longrightarrow> isValidated (scopes P p))"
  shows "\<forall>a \<in> set (r # parentChain k P' r). isValidated (scopes P' a)"
  using assms
proof (induction n arbitrary: r force P P' k)
  case 0
  then show ?case by simp
next
  case (Suc n)
  note closed = Suc.prems(2)
  from validate_step [OF Suc.prems(1)]
  show ?case
  proof (elim disjE conjE exE)
    assume "isValidated (scopes P r)" "P' = P"
    then show ?thesis using parentChain_closed [OF _ closed] by simp
  next
    fix P1 force'
    assume ps: "parentStep (validate n X) r force' P P1"
      and fr: "scopeFrame r P1 P'" and v: "isValidated (scopes P' r)"
    have same: "\<forall>a. parentScope (scopes P' a) = parentScope (scopes P a)"
      using validate_preserves [OF Suc.prems(1)] by simp
    have step: "isValidated (scopes P1 a) \<Longrightarrow> isValidated (scopes P' a)" for a
      using fr v by (cases "a = r") (auto simp: scopeFrame_def)
    show ?thesis
    proof (cases "parentScope (scopes P r)")
      case None
      then have "parentChain k P' r = []"
        using same by (cases k) auto
      then show ?thesis using v by simp
    next
      case (Some p)
      have closed_p: "\<forall>j. \<forall>a \<in> set (p # parentChain j P p). isValidated (scopes P a) \<longrightarrow>
           (\<forall>q. parentScope (scopes P a) = Some q \<longrightarrow> isValidated (scopes P q))"
      proof (intro allI ballI)
        fix j a assume "a \<in> set (p # parentChain j P p)"
        then have "a \<in> set (r # parentChain (Suc j) P r)" using Some by simp
        then show "isValidated (scopes P a) \<longrightarrow>
           (\<forall>q. parentScope (scopes P a) = Some q \<longrightarrow> isValidated (scopes P q))"
          using closed by blast
      qed
      have chain1: "\<forall>a \<in> set (p # parentChain j P p). isValidated (scopes P1 a)" for j
      proof (cases "isValidated (scopes P p)")
        case True
        then have "P1 = P" using ps Some by (simp add: parentStep_def)
        then show ?thesis using parentChain_closed [OF True closed_p] True by simp
      next
        case False
        then have rec: "validate n X p force' P = Some P1"
          using ps Some by (simp add: parentStep_def)
        have "parentChain j P1 p = parentChain j P p"
          using validate_preserves [OF rec] by (intro parentChain_cong) simp
        then show ?thesis using Suc.IH [OF rec closed_p, of j] by simp
      qed
      have "parentChain k P' r = parentChain k P r"
        using same by (rule parentChain_cong)
      moreover have "set (parentChain k P r) \<subseteq> set (p # parentChain k P p)"
      proof (cases k)
        case 0
        then show ?thesis by simp
      next
        case (Suc j)
        have "set (parentChain j P p) \<subseteq> set (parentChain (Suc j) P p)"
        proof (induction j arbitrary: p)
          case 0
          show ?case by simp
        next
          case (Suc i)
          show ?case
            using Suc.IH by (cases "parentScope (scopes P p)") auto
        qed
        then show ?thesis using Suc Some by auto
      qed
      ultimately show ?thesis using chain1 [of k] step v by auto
    qed
  qed
qed


lemma updScope_updScope: "updScope r g (updScope r f P) = updScope r (\<lambda>s. g (f s)) P"
  by (simp add: updScope_def)

lemma updScope_cong: "g (scopes P r) = h (scopes P r) \<Longrightarrow> updScope r g P = updScope r h P"
  by (simp add: updScope_def)

lemma dict_set_fresh: "map_of d k = None \<Longrightarrow> dict_set d k v = d @ [(k, v)]"
  by (induction d) (auto split: if_splits)

lemma pathAbsolute_not_inherited: "pathAbsolute f \<notin> set objectPrototypeKeys"
  by (simp add: pathAbsolute_def objectPrototypeKeys_def)

lemma obj_get_pathAbsolute:
  "truthyProperty (obj_get d (pathAbsolute f)) \<longleftrightarrow> dict_get d (pathAbsolute f) \<noteq> None"
  using pathAbsolute_not_inherited [of f]
  by (auto simp: obj_get_def split: option.splits)

lemma addOrReplaceFile_fresh:
  assumes "dict_get (files (scopes P r)) (pathAbsolute f) = None"
  shows "addOrReplaceFile X r f P =
           updScope r (\<lambda>s. (set_isValidated False s)\<lparr>files := files s @ [(pathAbsolute f, f)]\<rparr>) P"
proof -
  have fs: "files (set_isValidated False s) = files s" for s
    by (simp add: set_isValidated_def)
  have "addOrReplaceFile X r f P =
          updScope r (\<lambda>s. s\<lparr>files := dict_set (files s) (pathAbsolute f) f\<rparr>)
            (updScope r (set_isValidated False) P)"
    using assms by (simp add: addOrReplaceFile_def Let_def scopes_updScope fs obj_get_pathAbsolute)
  also have "\<dots> = updScope r (\<lambda>s. (set_isValidated False s)
                        \<lparr>files := dict_set (files (set_isValidated False s)) (pathAbsolute f) f\<rparr>) P"
    by (rule updScope_updScope)
  also have "\<dots> = updScope r (\<lambda>s. (set_isValidated False s)\<lparr>files := files s @ [(pathAbsolute f, f)]\<rparr>) P"
    using assms by (intro updScope_cong) (simp add: fs dict_set_fresh dict_get_def)
  finally show ?thesis .
qed

lemma addOrReplaceFile_fresh_no_event:
  assumes "dict_get (files (scopes P r)) (pathAbsolute f) = None"
  shows "emitted (scopes (addOrReplaceFile X r f P) r) = emitted (scopes P r)
         \<and> (\<forall>a. a \<noteq> r \<longrightarrow> scopes (addOrReplaceFile X r f P) a = scopes P a)"
  unfolding addOrReplaceFile_fresh [OF assms]
  by (simp add: scopes_updScope set_isValidated_def)

lemma ex1_unvalidated: "\<not> isValidated (scopes ex1_program a)"
  by (simp add: ex1_program_def attachParentScope_def on_invalidated_def
      updScope_def emptyProgram_def newScope_def set_isValidated_def Let_def)

lemma ex1_returns:
  "validate 3 exampleExternals 1 False ex1_program
     = Some (the (validate 3 exampleExternals 1 False ex1_program))"
proof -
  have "validate 3 exampleExternals 1 False ex1_program \<noteq> None"
    by code_simp
  then show ?thesis by simp
qed

lemma ex1_chain:
  "parentChain 2 (the (validate 3 exampleExternals 1 False ex1_program)) 1 = [0]"
  by code_simp


lemma ex9_before:
  "namespaceLookup_cache (scopes ex9_program 1) = Some []
   \<and> classLookup_cache (scopes ex9_program 1) = Some []
   \<and> \<not> isValidated (scopes ex9_program 1)"
  by code_simp

lemma ex9_returns:
  "validate 3 exampleExternals 1 False ex9_program
     = Some (the (validate 3 exampleExternals 1 False ex9_program))"
proof -
  have "validate 3 exampleExternals 1 False ex9_program \<noteq> None"
    by code_simp
  then show ?thesis by simp
qed

lemma xmlFiles_disconnect [simp]: "xmlFiles (disconnect h P) = xmlFiles P"
  by (simp add: disconnect_def)

lemma platformScope_disconnect [simp]: "platformScope (disconnect h P) = platformScope P"
  by (simp add: disconnect_def)

lemma xmlFiles_fold_disconnect [simp]: "xmlFiles (fold disconnect hs P) = xmlFiles P"
  by (induction hs arbitrary: P) auto

lemma platformScope_fold_disconnect [simp]: "platformScope (fold disconnect hs P) = platformScope P"
  by (induction hs arbitrary: P) auto

lemma xmlFiles_detachParent [simp]: "xmlFiles (detachParent r P) = xmlFiles P"
  by (simp add: detachParent_def Let_def)

lemma platformScope_detachParent [simp]: "platformScope (detachParent r P) = platformScope P"
  by (simp add: detachParent_def Let_def)

lemma parentScope_detachParent:
  "r \<noteq> platformScope P \<Longrightarrow> parentScope (scopes (detachParent r P) r) = Some (platformScope P)"
  by (simp add: detachParent_def Let_def scopes_updScope)

lemma parentScope_disconnect [simp]:
  "parentScope (scopes (disconnect h P) a) = parentScope (scopes P a)"
  by (simp add: disconnect_def scopes_updScope)

lemma isValidated_disconnect [simp]:
  "isValidated (scopes (disconnect h P) a) = isValidated (scopes P a)"
  by (simp add: disconnect_def scopes_updScope)

lemma isValidated_fold_disconnect [simp]:
  "isValidated (scopes (fold disconnect hs P) a) = isValidated (scopes P a)"
  by (induction hs arbitrary: P) auto

lemma isValidated_detachParent [simp]:
  "isValidated (scopes (detachParent r P) a) = isValidated (scopes P a)"
  by (simp add: detachParent_def Let_def scopes_updScope)

lemma xmlFiles_attachParentScope [simp]: "xmlFiles (attachParentScope r p P) = xmlFiles P"
  by (simp add: attachParentScope_def on_invalidated_def Let_def)

lemma xmlFiles_handleXmlFileParentAttach [simp]:
  "xmlFiles (handleXmlFileParentAttach r fileAddr P) = xmlFiles P"
  by (simp add: handleXmlFileParentAttach_def split: option.splits)

lemma x_parent_XmlFile_attachParent:
  "x_parent (xmlFiles (XmlFile_attachParent r a fileAddr P) a) = Some fileAddr"
  by (simp add: XmlFile_attachParent_def)

lemma x_parent_XmlFile_detachParent:
  "x_parent (xmlFiles (XmlFile_detachParent r a P) a) = None"
  by (simp add: XmlFile_detachParent_def)

lemma dict_get_dict_set:
  "dict_get (dict_set d k v) k' = (if k' = k then Some v else dict_get d k')"
  by (induction d) (auto simp: dict_get_def)

lemma find_None_image: "find (\<lambda>p. f p = k) xs = None \<longleftrightarrow> k \<notin> f ` set xs"
  by (auto simp: find_None_iff)

lemma getAncestorScriptTagImports_chain:
  "getAncestorScriptTagImports fuel P par = Some anc \<Longrightarrow>
     \<exists>chain. xmlAncestors fuel P par = Some chain \<and>
             anc = concat (map (\<lambda>p. scriptTagImports (xmlFiles P p)) chain)"
proof (induction fuel P par arbitrary: anc rule: getAncestorScriptTagImports.induct)
  case (1 P parent)
  then show ?case by simp
next
  case (2 n P)
  then show ?case by simp
next
  case (3 n P p)
  then show ?case by (auto split: option.splits)
qed

lemma find_concat_map:
  "find Q (concat (map g chain)) =
     (case find (\<lambda>p. \<exists>i \<in> set (g p). Q i) chain of
        None \<Rightarrow> None
      | Some p \<Rightarrow> find Q (g p))"
proof (induction chain)
  case Nil
  show ?case by simp
next
  case (Cons p chain)
  have app: "find Q (xs @ ys) = (case find Q xs of None \<Rightarrow> find Q ys | Some x \<Rightarrow> Some x)"
    for xs ys
    by (induction xs) auto
  show ?case
  proof (cases "\<exists>i \<in> set (g p). Q i")
    case True
    then have "find Q (g p) \<noteq> None" by (auto simp: find_None_iff)
    then show ?thesis using True by (auto simp: app split: option.splits)
  next
    case False
    then have "find Q (g p) = None" by (auto simp: find_None_iff)
    then show ?thesis using False Cons.IH by (simp add: app)
  qed
qed

lemma ex8_ancestors:
  "getAncestorScriptTagImports 5 ex8_program (x_parent (xmlFiles ex8_program 1))
     = Some [scriptImport ''source/util.brs'' 2 2,
             scriptImport ''source/base.brs'' 2 3,
             scriptImport ''source/util.brs'' 3 3]"
  by code_simp

lemma ex10_facts:
  "xmlRef ex10_file = Some 5
   \<and> componentName (xmlFiles ex10_program 5) = Some ''mid''
   \<and> parentName (xmlFiles ex10_program 1) = Some ''Mid''
   \<and> componentName (xmlFiles ex10_unresolved 5) = Some ''mid''
   \<and> parentName (xmlFiles ex10_unresolved 1) = Some ''Mid''
   \<and> x_parent (xmlFiles ex10_unresolved 1) = None
   \<and> x_parent (xmlFiles ex10_program 1) = Some 2
   \<and> toLowerCase ''mid'' = toLowerCase ''Mid''"
  by code_simp



lemma name_pushDiagnostics [simp]: "name (scopes (pushDiagnostics r ds P) a) = name (scopes P a)"
  by (simp add: pushDiagnostics_def updScope_def)

lemma files_pushDiagnostics [simp]: "files (scopes (pushDiagnostics r ds P) a) = files (scopes P a)"
  by (simp add: pushDiagnostics_def updScope_def)





lemma validate_keeps:
  "validate n X r force P = Some P' \<Longrightarrow>
     (\<forall>a. parentScope (scopes P' a) = parentScope (scopes P a)
          \<and> xmlFile (scopes P' a) = xmlFile (scopes P a))
     \<and> xmlFiles P' = xmlFiles P"
proof (induction n arbitrary: r force P P')
  case 0
  then show ?case by simp
next
  case (Suc k)
  from validate_step [OF Suc.prems]
  show ?case
  proof (elim disjE conjE exE)
    assume "isValidated (scopes P r)" "P' = P"
    then show ?thesis by simp
  next
    fix P1 force'
    assume ps: "parentStep (validate k X) r force' P P1"
      and fr: "scopeFrame r P1 P'"
    have P1: "(\<forall>a. parentScope (scopes P1 a) = parentScope (scopes P a)
                 \<and> xmlFile (scopes P1 a) = xmlFile (scopes P a))
              \<and> xmlFiles P1 = xmlFiles P"
      using ps Suc.IH unfolding parentStep_def
      by (auto split: option.splits if_splits)
    have "parentScope (scopes P' a) = parentScope (scopes P1 a)
          \<and> xmlFile (scopes P' a) = xmlFile (scopes P1 a)" for a
      using fr by (cases "a = r") (auto simp: scopeFrame_def)
    moreover have "xmlFiles P' = xmlFiles P1"
      using fr by (simp add: scopeFrame_def)
    ultimately show ?thesis using P1 by simp
  qed
qed

lemma overridesAncestor_emission:
  assumes "bucket \<in> set m"
  shows "(ownCallables P r (snd bucket) \<noteq> []
            \<and> ancestorNonPlatformCallables P r (snd bucket) \<noteq> []
            \<and> fst bucket \<noteq> ''init''
          \<longrightarrow> (\<forall>c \<in> set (ownCallables P r (snd bucket)).
                 overridesAncestorDiagnostic P c (last (ancestorNonPlatformCallables P r (snd bucket)))
                   \<in> set (diagnostics (scopes (diagnosticFindDuplicateFunctionDeclarations r m P) r))))
         \<and> (fst bucket = ''init''
          \<longrightarrow> (\<forall>d \<in> set (bucketDiagnostics P r bucket).
                 severityOf (d_info d) \<noteq> Some Information))"
proof -
  obtain lowerName containers where b: "bucket = (lowerName, containers)"
    by (cases bucket)
  have sev: "severityOf (d_info (duplicateFunctionDiagnostic P x)) \<noteq> Some Information" for x
    by (simp add: duplicateFunctionDiagnostic_def Let_def)
  have 1: "overridesAncestorDiagnostic P c (last (ancestorNonPlatformCallables P r containers))
             \<in> set (bucketDiagnostics P r bucket)"
    if "ownCallables P r containers \<noteq> []" "ancestorNonPlatformCallables P r containers \<noteq> []"
       "lowerName \<noteq> ''init''" "c \<in> set (ownCallables P r containers)" for c
    using that unfolding b bucketDiagnostics_eq by simp
  have 2: "severityOf (d_info d) \<noteq> Some Information"
    if "lowerName = ''init''" "d \<in> set (bucketDiagnostics P r bucket)" for d
    using that sev unfolding b bucketDiagnostics_eq by (auto split: if_splits)
  show ?thesis
    using 1 2 assms b
    by (auto simp: diagnostics_diagnosticFindDuplicateFunctionDeclarations)
qed





lemma overridesAncestorDiagnostic_cong:
  "\<forall>a. name (scopes P' a) = name (scopes P a) \<Longrightarrow>
     overridesAncestorDiagnostic P' c s = overridesAncestorDiagnostic P c s"
  by (simp add: overridesAncestorDiagnostic_def)










section \<open>The properties\<close>

subsection \<open>C1: reading the diagnostics and validation\<close>

text \<open>
  Claim C1 says that after \<open>getDiagnostics\<close> returns the scope is validated. It is not:
  for the scope \<open>source\<close>, fresh from its constructor, \<open>getDiagnostics\<close> returns and the
  scope is still not validated.
\<close>

theorem getDiagnostics_counterexample:
  "\<not> isValidated (scopes (snd (getDiagnostics exampleExternals 1 ex1_program)) 1)"
  by (simp add: getDiagnostics_def ex1_program_def attachParentScope_def on_invalidated_def
      updScope_def emptyProgram_def newScope_def set_isValidated_def Let_def)

text \<open>
  Claim C1, amended: \<open>getDiagnostics\<close> validates nothing and leaves the program as it
  found it. It is \<open>validate\<close> after which, when it returns, the scope is validated; and
  every transitive parent of the scope is validated too, provided that before the call no
  validated scope among the scope and its transitive parents had a parent that was not
  validated.
\<close>

theorem validate_establishes_validated_chain:
  "snd (getDiagnostics X r P) = P
   \<and> (validate n X r force P = Some P' \<longrightarrow> isValidated (scopes P' r))
   \<and> (validate n X r force P = Some P'
        \<and> (\<forall>k. \<forall>a \<in> set (r # parentChain k P r). isValidated (scopes P a) \<longrightarrow>
               (\<forall>p. parentScope (scopes P a) = Some p \<longrightarrow> isValidated (scopes P p)))
        \<longrightarrow> (\<forall>k. \<forall>a \<in> set (r # parentChain k P' r). isValidated (scopes P' a)))"
proof (intro conjI impI)
  show "snd (getDiagnostics X r P) = P"
    by (simp add: getDiagnostics_def Let_def)
next
  assume "validate n X r force P = Some P'"
  then show "isValidated (scopes P' r)"
    using validate_preserves by blast
next
  assume "validate n X r force P = Some P'
        \<and> (\<forall>k. \<forall>a \<in> set (r # parentChain k P r). isValidated (scopes P a) \<longrightarrow>
               (\<forall>p. parentScope (scopes P a) = Some p \<longrightarrow> isValidated (scopes P p)))"
  then show "\<forall>k. \<forall>a \<in> set (r # parentChain k P' r). isValidated (scopes P' a)"
    using validate_chain by blast
qed

text \<open>
  The amended claim at the two fresh scopes: \<open>validate\<close> returns, and both the scope and
  its parent are validated.
\<close>

theorem validate_establishes_validated_chain_witness:
  "isValidated (scopes (the (validate 3 exampleExternals 1 False ex1_program)) 1)
   \<and> isValidated (scopes (the (validate 3 exampleExternals 1 False ex1_program)) 0)"
  using validate_establishes_validated_chain
    [of exampleExternals 1 ex1_program 3 False "the (validate 3 exampleExternals 1 False ex1_program)"]
    ex1_returns ex1_unvalidated ex1_chain
  by (metis list.set_intros(1) list.set_intros(2))

subsection \<open>C2: duplicate function implementations\<close>



subsection \<open>C3: overriding an ancestor's function\<close>

text \<open>
  Claim C3 says that the overriding diagnostic refers to the nearest ancestor occurrence.
  In the chain \<open>leaf\<close>, \<open>mid\<close>, \<open>base\<close>, where each scope declares \<open>doWork\<close>, the
  nearest ancestor of \<open>leaf\<close> that declares it is its parent \<open>mid\<close>; the diagnostic
  that validating \<open>leaf\<close> leaves refers to \<open>base\<close> and its file \<open>source/z.brs\<close>, the
  occurrence that the sort by file path has put last in the bucket.
\<close>

theorem overrides_refers_to_farthest_ancestor:
  "parentChain 3 ex3_program 3 = [2, 1, 0]
   \<and> map (\<lambda>kv. map c_name (callables (snd kv))) (files (scopes ex3_program 2)) = [[''doWork'']]
   \<and> map d_info (diagnostics (scopes (the (validate 6 exampleExternals 3 False ex3_program)) 3))
       = [overridesAncestorFunction ''doWork'' ''leaf'' ''source/z.brs'' ''base'']"
  by code_simp

subsection \<open>C4: the event \<open>invalidated\<close>\<close>

text \<open>
  Claim C4 says that adding a fresh file through \<open>addOrReplaceFile\<close> emits
  \<open>'invalidated'\<close>. For the validated scopes \<open>base\<close> and \<open>leaf\<close>, where \<open>leaf\<close>
  listens to \<open>base\<close>: adding a file that \<open>base\<close> does not hold emits nothing, \<open>base\<close>
  is no longer validated and \<open>leaf\<close> still is; removing the file again does emit the
  event, and only then \<open>leaf\<close> is no longer validated.
\<close>

theorem addOrReplaceFile_fresh_emits_nothing:
  "dict_get (files (scopes ex4_program 1)) (pathAbsolute ex4_file) = None
   \<and> listeners (scopes ex4_program 1) = [(0, InvalidateScope 2)]
   \<and> isValidated (scopes ex4_program 1) \<and> isValidated (scopes ex4_program 2)
   \<and> emitted (scopes (addOrReplaceFile exampleExternals 1 ex4_file ex4_program) 1) = []
   \<and> dict_keys (files (scopes (addOrReplaceFile exampleExternals 1 ex4_file ex4_program) 1))
        = [''/lib.brs'']
   \<and> \<not> isValidated (scopes (addOrReplaceFile exampleExternals 1 ex4_file ex4_program) 1)
   \<and> isValidated (scopes (addOrReplaceFile exampleExternals 1 ex4_file ex4_program) 2)
   \<and> emitted (scopes (removeFile exampleExternals 1 ex4_file
                        (addOrReplaceFile exampleExternals 1 ex4_file ex4_program)) 1)
        = [''invalidated'']
   \<and> \<not> isValidated (scopes (removeFile exampleExternals 1 ex4_file
                        (addOrReplaceFile exampleExternals 1 ex4_file ex4_program)) 2)"
  by code_simp

subsection \<open>C5: the number of arguments of a call\<close>



subsection \<open>C6: calls to unknown functions\<close>



subsection \<open>C7: the namespace lookup\<close>

text \<open>
  Claim C7 says that for every namespace that a member file declares the lookup holds the
  lower-cased prefixes of its name as keys. For the namespace \<open>constructor\<close> the lookup
  should hold the key \<open>constructor\<close>, and for \<open>Constructor.Utils\<close> the keys
  \<open>constructor\<close> and \<open>constructor.utils\<close>; for both, building the lookup throws a
  \<open>TypeError\<close> and so does the getter, because \<open>namespaceLookup['constructor']\<close>
  reads the function that every object inherits and the code goes on with it as if it were
  a container. For \<open>NameA.NameB.NameC\<close> the build returns and the keys are the three
  prefixes.
\<close>

theorem namespaceLookup_throws_for_constructor:
  "map ns_name (getNamespaceStatements ex7_constructor) = [''constructor'']
   \<and> buildNamespaceLookup ex7_constructor = Inl TypeError
   \<and> map ns_name (getNamespaceStatements ex7_dotted_constructor) = [''Constructor.Utils'']
   \<and> buildNamespaceLookup ex7_dotted_constructor = Inl TypeError
   \<and> get_namespaceLookup 1 (emptyProgram\<lparr>scopes := (\<lambda>a. ex7_constructor)\<rparr>) = Inl TypeError
   \<and> map ns_name (getNamespaceStatements ex7_scope) = [''NameA.NameB.NameC'']
   \<and> map fst (projr (buildNamespaceLookup ex7_scope))
       = [''namea'', ''namea.nameb'', ''namea.nameb.namec'']"
proof -
  have b: "buildNamespaceLookup ex7_constructor = Inl TypeError"
    by code_simp
  have c: "namespaceLookup_cache ex7_constructor = None"
    by (simp add: ex7_constructor_def newScope_def set_isValidated_def)
  have g: "get_namespaceLookup 1 (emptyProgram\<lparr>scopes := (\<lambda>a. ex7_constructor)\<rparr>) = Inl TypeError"
    by (simp add: get_namespaceLookup_def b c)
  have rest: "map ns_name (getNamespaceStatements ex7_constructor) = [''constructor'']
   \<and> map ns_name (getNamespaceStatements ex7_dotted_constructor) = [''Constructor.Utils'']
   \<and> buildNamespaceLookup ex7_dotted_constructor = Inl TypeError
   \<and> map ns_name (getNamespaceStatements ex7_scope) = [''NameA.NameB.NameC'']
   \<and> map fst (projr (buildNamespaceLookup ex7_scope))
       = [''namea'', ''namea.nameb'', ''namea.nameb.namec'']"
    by code_simp
  show ?thesis using b g rest by simp
qed

subsection \<open>C8: script imports that an ancestor already has\<close>

text \<open>
  Claim C8 says that every import of the descriptor whose pkgPath is among the ancestor
  script imports gets one warning that names the nearest ancestor importing it. Where
  \<open>Child\<close> and its parent \<open>Base\<close> both import \<open>pkg:/constructor\<close>, the warning
  should name \<open>Base\<close>; the check throws a \<open>TypeError\<close> instead and \<open>validate\<close> does
  not return, because \<open>lookup['constructor']\<close> reads the function that every object
  inherits: the ancestor import is never stored and the own import is taken for a file
  reference. With the script named \<open>pkg:/builder\<close>, \<open>validate\<close> returns and the
  warning names \<open>Base\<close>.
\<close>

theorem duplicateAncestorScriptImports_throws_for_constructor:
  "map fr_pkgPath (scriptTagImports (xmlFiles (importingProgram ''constructor'') 1))
     = [''constructor'']
   \<and> x_parent (xmlFiles (importingProgram ''constructor'') 1) = Some 2
   \<and> map_option (map fr_pkgPath)
        (getAncestorScriptTagImports 5 (importingProgram ''constructor'') (Some 2))
     = Some [''constructor'']
   \<and> diagnosticDetectDuplicateAncestorScriptImports 5 4 1 (importingProgram ''constructor'')
     = Some (Inl TypeError)
   \<and> validate 5 exampleExternals 4 False (importingProgram ''constructor'') = None
   \<and> map d_info (diagnostics (scopes (the (validate 5 exampleExternals 4 False
                                              (importingProgram ''builder''))) 4))
     = [unnecessaryScriptImportInChildFromParent (Some ''Base''), referencedFileDoesNotExist]"
proof -
  have "case diagnosticDetectDuplicateAncestorScriptImports 5 4 1 (importingProgram ''constructor'') of
          Some (Inl TypeError) \<Rightarrow> True | _ \<Rightarrow> False"
    by code_simp
  then have t: "diagnosticDetectDuplicateAncestorScriptImports 5 4 1 (importingProgram ''constructor'')
     = Some (Inl TypeError)"
    by (auto split: option.splits sum.splits error.splits)
  have rest: "map fr_pkgPath (scriptTagImports (xmlFiles (importingProgram ''constructor'') 1))
     = [''constructor'']
   \<and> x_parent (xmlFiles (importingProgram ''constructor'') 1) = Some 2
   \<and> map_option (map fr_pkgPath)
        (getAncestorScriptTagImports 5 (importingProgram ''constructor'') (Some 2))
     = Some [''constructor'']
   \<and> validate 5 exampleExternals 4 False (importingProgram ''constructor'') = None
   \<and> map d_info (diagnostics (scopes (the (validate 5 exampleExternals 4 False
                                              (importingProgram ''builder''))) 4))
     = [unnecessaryScriptImportInChildFromParent (Some ''Base''), referencedFileDoesNotExist]"
    by code_simp
  show ?thesis using t rest by simp
qed

subsection \<open>C9: writing \<open>isValidated\<close> deletes the cached lookups\<close>

text \<open>
  Claim C9: the setter of \<open>isValidated\<close> stores the value, \<open>false\<close> or \<open>true\<close>, and
  deletes the cached namespace lookup and the cached class lookup; so when \<open>validate\<close>
  has run and returns, after its last \<open>isValidated = true\<close>, both are absent. The next
  read of the class lookup builds it again and keeps it; the next read of the namespace
  lookup runs the build again, and keeps what it returns when it returns.
\<close>

theorem isValidated_setter_clears_lookups:
  "isValidated (set_isValidated v s) = v
   \<and> namespaceLookup_cache (set_isValidated v s) = None
   \<and> classLookup_cache (set_isValidated v s) = None
   \<and> (validate n X r force P = Some P' \<and>
        (\<not> isValidated (scopes P r) \<or> (force \<and> xmlFile (scopes P r) = None)) \<longrightarrow>
          isValidated (scopes P' r)
          \<and> namespaceLookup_cache (scopes P' r) = None
          \<and> classLookup_cache (scopes P' r) = None)
   \<and> classLookup_cache (scopes (snd (get_classLookup r (updScope r (set_isValidated v) P))) r)
        = Some (buildClassLookup (scopes (updScope r (set_isValidated v) P) r))
   \<and> get_namespaceLookup r (updScope r (set_isValidated v) P)
        = (case buildNamespaceLookup (scopes (updScope r (set_isValidated v) P) r) of
             Inl e \<Rightarrow> Inl e
           | Inr lk \<Rightarrow> Inr (lk, updScope r (\<lambda>s. s\<lparr>namespaceLookup_cache := Some lk\<rparr>)
                                   (updScope r (set_isValidated v) P)))"
proof -
  have a: "isValidated (scopes P' r)
          \<and> namespaceLookup_cache (scopes P' r) = None
          \<and> classLookup_cache (scopes P' r) = None"
    if "validate n X r force P = Some P'"
      and "\<not> isValidated (scopes P r) \<or> (force \<and> xmlFile (scopes P r) = None)"
    using validate_cases [OF that(1)] that(2)
    by (auto simp: scopes_updScope set_isValidated_def)
  have b: "classLookup_cache (scopes (snd (get_classLookup r (updScope r (set_isValidated v) P))) r)
        = Some (buildClassLookup (scopes (updScope r (set_isValidated v) P) r))"
    by (simp add: set_isValidated_def get_classLookup_def scopes_updScope Let_def)
  have c: "isValidated (set_isValidated v s) = v
   \<and> namespaceLookup_cache (set_isValidated v s) = None
   \<and> classLookup_cache (set_isValidated v s) = None"
    by (simp add: set_isValidated_def)
  have d: "get_namespaceLookup r (updScope r (set_isValidated v) P)
        = (case buildNamespaceLookup (scopes (updScope r (set_isValidated v) P) r) of
             Inl e \<Rightarrow> Inl e
           | Inr lk \<Rightarrow> Inr (lk, updScope r (\<lambda>s. s\<lparr>namespaceLookup_cache := Some lk\<rparr>)
                                   (updScope r (set_isValidated v) P)))"
    by (simp add: get_namespaceLookup_def scopes_updScope set_isValidated_def)
  show ?thesis
    using a b c d by blast
qed

text \<open>
  Claim C9 at the scope \<open>source\<close> with both lookups cached: after \<open>validate\<close> both are
  absent.
\<close>

theorem isValidated_setter_clears_lookups_witness:
  "namespaceLookup_cache (scopes ex9_program 1) = Some []
   \<and> classLookup_cache (scopes ex9_program 1) = Some []
   \<and> isValidated (scopes (the (validate 3 exampleExternals 1 False ex9_program)) 1)
   \<and> namespaceLookup_cache (scopes (the (validate 3 exampleExternals 1 False ex9_program)) 1) = None
   \<and> classLookup_cache (scopes (the (validate 3 exampleExternals 1 False ex9_program)) 1) = None"
  using isValidated_setter_clears_lookups
    [of True "scopes ex9_program 1" 3 exampleExternals 1 False ex9_program
        "the (validate 3 exampleExternals 1 False ex9_program)"]
    ex9_returns ex9_before
  by simp

subsection \<open>C10: matching the parent name when files come and go\<close>

text \<open>
  Claim C10: when a file is added, the descriptor gets it as its parent only if the
  file's component name is equal to the wanted parent name, letter case included; when a
  file is removed, the parent is detached as soon as the two names are equal after
  lower-casing. So a component whose name differs from the parent name in case only is
  not attached by the first and does trigger the detachment by the second.
\<close>

theorem parent_match_case_sensitivity:
  "(addParentIfMatch_cond P a f \<longleftrightarrow>
      x_parent (xmlFiles P a) = None \<and> truthy (parentName (xmlFiles P a)) \<and>
      (\<exists>fileAddr. xmlRef f = Some fileAddr \<and>
         componentName (xmlFiles P fileAddr) = parentName (xmlFiles P a)))
   \<and> (onProgramFileRemove_cond P a f \<longleftrightarrow>
      (\<exists>fileAddr cn pn. xmlRef f = Some fileAddr \<and>
         componentName (xmlFiles P fileAddr) = Some cn \<and> cn \<noteq> [] \<and>
         parentName (xmlFiles P a) = Some pn \<and> pn \<noteq> [] \<and>
         toLowerCase cn = toLowerCase pn))
   \<and> (addParentIfMatch_cond P a f \<longrightarrow>
         x_parent (xmlFiles (addParentIfMatch r a f P) a) = xmlRef f)
   \<and> (\<not> addParentIfMatch_cond P a f \<longrightarrow> addParentIfMatch r a f P = P)
   \<and> (onProgramFileRemove_cond P a f \<longrightarrow>
         x_parent (xmlFiles (onProgramFileRemove r a f P) a) = None \<and>
         \<not> isValidated (scopes (onProgramFileRemove r a f P) r) \<and>
         (r \<noteq> platformScope P \<longrightarrow>
            parentScope (scopes (onProgramFileRemove r a f P) r) = Some (platformScope P)))
   \<and> (\<not> onProgramFileRemove_cond P a f \<longrightarrow> onProgramFileRemove r a f P = P)
   \<and> (xmlRef f = Some fileAddr \<and> componentName (xmlFiles P fileAddr) = Some cn \<and>
        parentName (xmlFiles P a) = Some pn \<and> cn \<noteq> pn \<and> cn \<noteq> [] \<and>
        toLowerCase cn = toLowerCase pn
        \<longrightarrow> addParentIfMatch r a f P = P
            \<and> x_parent (xmlFiles (onProgramFileRemove r a f P) a) = None)"
proof -
  have c1: "addParentIfMatch_cond P a f \<longleftrightarrow>
      x_parent (xmlFiles P a) = None \<and> truthy (parentName (xmlFiles P a)) \<and>
      (\<exists>fileAddr. xmlRef f = Some fileAddr \<and>
         componentName (xmlFiles P fileAddr) = parentName (xmlFiles P a))"
    by (auto simp: addParentIfMatch_cond_def split: option.splits)
  have tr: "truthy x \<longleftrightarrow> (\<exists>s. x = Some s \<and> s \<noteq> [])" for x
    by (cases x) auto
  have c2: "onProgramFileRemove_cond P a f \<longleftrightarrow>
      (\<exists>fileAddr cn pn. xmlRef f = Some fileAddr \<and>
         componentName (xmlFiles P fileAddr) = Some cn \<and> cn \<noteq> [] \<and>
         parentName (xmlFiles P a) = Some pn \<and> pn \<noteq> [] \<and>
         toLowerCase cn = toLowerCase pn)"
    by (auto simp: onProgramFileRemove_cond_def tr split: option.splits)
  have a1: "x_parent (xmlFiles (addParentIfMatch r a f P) a) = xmlRef f"
    if "addParentIfMatch_cond P a f"
    using that by (auto simp: addParentIfMatch_def c1 x_parent_XmlFile_attachParent)
  have a2: "addParentIfMatch r a f P = P" if "\<not> addParentIfMatch_cond P a f"
    using that by (simp add: addParentIfMatch_def)
  have r1: "x_parent (xmlFiles (onProgramFileRemove r a f P) a) = None \<and>
         \<not> isValidated (scopes (onProgramFileRemove r a f P) r) \<and>
         (r \<noteq> platformScope P \<longrightarrow>
            parentScope (scopes (onProgramFileRemove r a f P) r) = Some (platformScope P))"
    if "onProgramFileRemove_cond P a f"
    using that
    by (simp add: onProgramFileRemove_def XmlFile_detachParent_def parentScope_detachParent
        scopes_updScope set_isValidated_def)
  have r2: "onProgramFileRemove r a f P = P" if "\<not> onProgramFileRemove_cond P a f"
    using that by (simp add: onProgramFileRemove_def)
  have len: "toLowerCase cn = toLowerCase pn \<Longrightarrow> cn \<noteq> [] \<Longrightarrow> pn \<noteq> []" for cn pn
    by (auto simp: toLowerCase_def)
  have m: "addParentIfMatch r a f P = P
            \<and> x_parent (xmlFiles (onProgramFileRemove r a f P) a) = None"
    if "xmlRef f = Some fileAddr" "componentName (xmlFiles P fileAddr) = Some cn"
       "parentName (xmlFiles P a) = Some pn" "cn \<noteq> pn" "cn \<noteq> []"
       "toLowerCase cn = toLowerCase pn"
  proof -
    have "\<not> addParentIfMatch_cond P a f" using that by (auto simp: c1)
    moreover have "onProgramFileRemove_cond P a f"
      unfolding c2 using that len [of cn pn] by auto
    ultimately show ?thesis using a2 r1 by blast
  qed
  show ?thesis
    using c1 c2 a1 a2 r1 r2 m by blast
qed

text \<open>
  Claim C10 at the descriptor \<open>Child\<close>, which wants the parent \<open>Mid\<close>, and the
  component \<open>mid\<close>: adding \<open>mid\<close> changes nothing while the parent is unresolved;
  removing \<open>mid\<close> detaches the resolved parent \<open>Mid\<close>.
\<close>

theorem parent_match_case_sensitivity_witness:
  "x_parent (xmlFiles ex10_unresolved 1) = None
   \<and> addParentIfMatch 4 1 ex10_file ex10_unresolved = ex10_unresolved
   \<and> x_parent (xmlFiles ex10_program 1) = Some 2
   \<and> x_parent (xmlFiles (onProgramFileRemove 4 1 ex10_file ex10_program) 1) = None"
  using parent_match_case_sensitivity [of ex10_unresolved 1 ex10_file 4 5 "''mid''" "''Mid''"]
    parent_match_case_sensitivity [of ex10_program 1 ex10_file 4 5 "''mid''" "''Mid''"]
    ex10_facts
  by simp

end
